theory Spec2Isabelle
  imports Main "HOL-Library.Word"
begin


unbundle bit_operations_syntax

section \<open>Platform library\<close>

text \<open>
  Python text is modelled by its UTF-8 encoding: a \<open>string\<close> is the byte sequence that
  \<^verbatim>\<open>text.encode("utf-8")\<close> yields, so \<open>length\<close> is the encoded size that the size
  guard of the diff engine measures.  Files hold such byte strings.
\<close>

subsection \<open>Digests of \<^verbatim>\<open>hashlib\<close>\<close>

type_synonym u32 = "32 word"

definition bytes_of :: "string \<Rightarrow> nat list" where
  "bytes_of s = map of_char s"

definition be_bytes :: "nat \<Rightarrow> nat \<Rightarrow> nat list" where
  "be_bytes n v = map (\<lambda>i. (v div 256 ^ i) mod 256) (rev [0..<n])"

definition le_bytes :: "nat \<Rightarrow> nat \<Rightarrow> nat list" where
  "le_bytes n v = map (\<lambda>i. (v div 256 ^ i) mod 256) [0..<n]"

definition be_word :: "nat list \<Rightarrow> u32" where
  "be_word bs = of_nat (foldl (\<lambda>a b. a * 256 + b) 0 bs)"

definition le_word :: "nat list \<Rightarrow> u32" where
  "le_word bs = of_nat (foldr (\<lambda>b a. a * 256 + b) bs 0)"

definition chunks :: "nat \<Rightarrow> 'a list \<Rightarrow> 'a list list" where
  "chunks n xs = map (\<lambda>i. take n (drop (i * n) xs)) [0..<length xs div n]"

definition hex_digit :: "nat \<Rightarrow> char" where
  "hex_digit n = (if n < 10 then char_of (48 + n) else char_of (87 + n))"

definition hex_byte :: "nat \<Rightarrow> string" where
  "hex_byte b = [hex_digit (b div 16 mod 16), hex_digit (b mod 16)]"

definition hex_of_bytes :: "nat list \<Rightarrow> string" where
  "hex_of_bytes bs = concat (map hex_byte bs)"

text \<open>The padding shared by MD5 and SHA-256: a one bit, then zeros up to 56 modulo 64.\<close>

definition md_padding :: "nat \<Rightarrow> nat list" where
  "md_padding len = 128 # replicate ((119 - len mod 64) mod 64) 0"

definition K256 :: "u32 list" where
  "K256 = [1116352408, 1899447441, 3049323471, 3921009573, 961987163, 1508970993,
    2453635748, 2870763221, 3624381080, 310598401, 607225278, 1426881987, 1925078388,
    2162078206, 2614888103, 3248222580, 3835390401, 4022224774, 264347078, 604807628,
    770255983, 1249150122, 1555081692, 1996064986, 2554220882, 2821834349, 2952996808,
    3210313671, 3336571891, 3584528711, 113926993, 338241895, 666307205, 773529912,
    1294757372, 1396182291, 1695183700, 1986661051, 2177026350, 2456956037, 2730485921,
    2820302411, 3259730800, 3345764771, 3516065817, 3600352804, 4094571909, 275423344,
    430227734, 506948616, 659060556, 883997877, 958139571, 1322822218, 1537002063,
    1747873779, 1955562222, 2024104815, 2227730452, 2361852424, 2428436474, 2756734187,
    3204031479, 3329325298]"

definition H256 :: "u32 list" where
  "H256 = [1779033703, 3144134277, 1013904242, 2773480762, 1359893119, 2600822924,
    528734635, 1541459225]"

definition ssig0 :: "u32 \<Rightarrow> u32" where
  "ssig0 x = word_rotr 7 x XOR word_rotr 18 x XOR drop_bit 3 x"

definition ssig1 :: "u32 \<Rightarrow> u32" where
  "ssig1 x = word_rotr 17 x XOR word_rotr 19 x XOR drop_bit 10 x"

definition bsig0 :: "u32 \<Rightarrow> u32" where
  "bsig0 x = word_rotr 2 x XOR word_rotr 13 x XOR word_rotr 22 x"

definition bsig1 :: "u32 \<Rightarrow> u32" where
  "bsig1 x = word_rotr 6 x XOR word_rotr 11 x XOR word_rotr 25 x"

fun sha256_schedule :: "nat \<Rightarrow> u32 list \<Rightarrow> u32 list" where
  "sha256_schedule 0 ws = ws"
| "sha256_schedule (Suc n) ws =
     (let t = length ws
      in sha256_schedule n
           (ws @ [ssig1 (ws ! (t - 2)) + ws ! (t - 7) + ssig0 (ws ! (t - 15)) + ws ! (t - 16)]))"

definition sha256_round :: "u32 list \<Rightarrow> u32 \<times> u32 \<Rightarrow> u32 list" where
  "sha256_round s kw =
     (case s of
        [a, b, c, d, e, f, g, h] \<Rightarrow>
          (let t1 = h + bsig1 e + ((e AND f) XOR (NOT e AND g)) + fst kw + snd kw;
               t2 = bsig0 a + ((a AND b) XOR (a AND c) XOR (b AND c))
           in [t1 + t2, a, b, c, d + t1, e, f, g])
      | _ \<Rightarrow> s)"

definition sha256_block :: "u32 list \<Rightarrow> nat list \<Rightarrow> u32 list" where
  "sha256_block hs block =
     (let ws = sha256_schedule 48 (map be_word (chunks 4 block))
      in map2 (+) hs (foldl sha256_round hs (zip K256 ws)))"

text \<open>\<^verbatim>\<open>hashlib.sha256(data).hexdigest()\<close>\<close>

definition sha256_hexdigest :: "string \<Rightarrow> string" where
  "sha256_hexdigest s =
     (let m = bytes_of s;
          padded = m @ md_padding (length m) @ be_bytes 8 (8 * length m)
      in hex_of_bytes (concat (map (be_bytes 4 \<circ> unat)
           (foldl sha256_block H256 (chunks 64 padded)))))"

definition T5 :: "u32 list" where
  "T5 = [3614090360, 3905402710, 606105819, 3250441966, 4118548399, 1200080426,
    2821735955, 4249261313, 1770035416, 2336552879, 4294925233, 2304563134, 1804603682,
    4254626195, 2792965006, 1236535329, 4129170786, 3225465664, 643717713, 3921069994,
    3593408605, 38016083, 3634488961, 3889429448, 568446438, 3275163606, 4107603335,
    1163531501, 2850285829, 4243563512, 1735328473, 2368359562, 4294588738, 2272392833,
    1839030562, 4259657740, 2763975236, 1272893353, 4139469664, 3200236656, 681279174,
    3936430074, 3572445317, 76029189, 3654602809, 3873151461, 530742520, 3299628645,
    4096336452, 1126891415, 2878612391, 4237533241, 1700485571, 2399980690, 4293915773,
    2240044497, 1873313359, 4264355552, 2734768916, 1309151649, 4149444226, 3174756917,
    718787259, 3951481745]"

definition S5 :: "nat list" where
  "S5 = concat (map (\<lambda>r. concat (replicate 4 r))
                  [[7, 12, 17, 22], [5, 9, 14, 20], [4, 11, 16, 23], [6, 10, 15, 21]])"

definition md5_step :: "u32 list \<Rightarrow> u32 list \<Rightarrow> nat \<Rightarrow> u32 list" where
  "md5_step ms s i =
     (case s of
        [a, b, c, d] \<Rightarrow>
          (let (f, g) =
                 (if i < 16 then ((b AND c) OR (NOT b AND d), i)
                  else if i < 32 then ((d AND b) OR (NOT d AND c), (5 * i + 1) mod 16)
                  else if i < 48 then (b XOR c XOR d, (3 * i + 5) mod 16)
                  else (c XOR (b OR NOT d), (7 * i) mod 16))
           in [d, b + word_rotl (S5 ! i) (a + f + T5 ! i + ms ! g), b, c])
      | _ \<Rightarrow> s)"

definition md5_block :: "u32 list \<Rightarrow> nat list \<Rightarrow> u32 list" where
  "md5_block hs block =
     map2 (+) hs (foldl (md5_step (map le_word (chunks 4 block))) hs [0..<64])"

text \<open>\<^verbatim>\<open>hashlib.md5(data).hexdigest()\<close>\<close>

definition md5_hexdigest :: "string \<Rightarrow> string" where
  "md5_hexdigest s =
     (let m = bytes_of s;
          padded = m @ md_padding (length m) @ le_bytes 8 (8 * length m)
      in hex_of_bytes (concat (map (le_bytes 4 \<circ> unat)
           (foldl md5_block [1732584193, 4023233417, 2562383102, 271733878]
              (chunks 64 padded)))))"

subsection \<open>Strings and paths\<close>

text \<open>
  \<^verbatim>\<open>x or ""\<close> on an optional string, and the truth value Python gives an optional
  string in a condition (\<^verbatim>\<open>None\<close> and \<^verbatim>\<open>""\<close> are false).
\<close>

definition or_empty :: "string option \<Rightarrow> string" where
  "or_empty x = (case x of None \<Rightarrow> [] | Some s \<Rightarrow> s)"

definition truthy :: "string option \<Rightarrow> bool" where
  "truthy x = (case x of None \<Rightarrow> False | Some s \<Rightarrow> s \<noteq> [])"

text \<open>
  The length of the line boundary at the head of a text, 0 when there is none.  These are
  the boundaries of \<^verbatim>\<open>str.splitlines\<close>: LF, CR, CRLF, VT, FF, FS, GS, RS, and the code
  points U+0085, U+2028 and U+2029 in their UTF-8 encoding.
\<close>

fun line_break :: "string \<Rightarrow> nat" where
  "line_break [] = 0"
| "line_break (c # cs) =
     (if c = CHR 0x0D then (if take 1 cs = [CHR 0x0A] then 2 else 1)
      else if c \<in> {CHR 0x0A, CHR 0x0B, CHR 0x0C, CHR 0x1C, CHR 0x1D, CHR 0x1E} then 1
      else if c = CHR 0xC2 \<and> take 1 cs = [CHR 0x85] then 2
      else if c = CHR 0xE2 \<and> (take 2 cs = [CHR 0x80, CHR 0xA8] \<or> take 2 cs = [CHR 0x80, CHR 0xA9])
        then 3
      else 0)"

function splitlines_from :: "string \<Rightarrow> string \<Rightarrow> string list" where
  "splitlines_from cur s =
     (if s = [] then (if cur = [] then [] else [cur])
      else if line_break s = 0 then splitlines_from (cur @ [hd s]) (tl s)
      else cur # splitlines_from [] (drop (line_break s) s))"
  by pat_completeness auto
termination
  by (relation "measure (\<lambda>(cur, s). length s)") auto

text \<open>\<^verbatim>\<open>text.splitlines()\<close>\<close>

definition splitlines :: "string \<Rightarrow> string list" where
  "splitlines s = splitlines_from [] s"

text \<open>
  Reading in text mode translates CRLF and CR to LF (universal newlines), as
  \<^verbatim>\<open>Path.read_text\<close> does.
\<close>

fun universal_newlines :: "string \<Rightarrow> string" where
  "universal_newlines [] = []"
| "universal_newlines (c # cs) =
     (if c = CHR 0x0D
      then CHR 0x0A # universal_newlines (if take 1 cs = [CHR 0x0A] then tl cs else cs)
      else c # universal_newlines cs)"

text \<open>\<^verbatim>\<open>sep.join(parts)\<close>\<close>

fun join :: "string \<Rightarrow> string list \<Rightarrow> string" where
  "join sep [] = []"
| "join sep [x] = x"
| "join sep (x # y # ys) = x @ sep @ join sep (y # ys)"

text \<open>\<^verbatim>\<open>s.startswith(p)\<close>\<close>

definition startswith :: "string \<Rightarrow> string \<Rightarrow> bool" where
  "startswith s p = (take (length p) s = p)"

text \<open>
  Paths are normalised names written with \<open>/\<close>; \<open>path_join\<close> is \<^verbatim>\<open>a / b\<close> for a relative
  \<open>b\<close>, and \<open>path_name\<close> is \<^verbatim>\<open>Path.name\<close>, the last component.
\<close>

definition path_join :: "string \<Rightarrow> string \<Rightarrow> string" where
  "path_join a b = a @ ''/'' @ b"

definition path_name :: "string \<Rightarrow> string" where
  "path_name p = rev (takeWhile (\<lambda>c. c \<noteq> CHR ''/'') (rev p))"

text \<open>The decimal numeral of a natural number.\<close>

fun decimal :: "nat \<Rightarrow> string" where
  "decimal n = (if n < 10 then [char_of (48 + n)] else decimal (n div 10) @ [char_of (48 + n mod 10)])"

declare decimal.simps [simp del]

section \<open>Workspace\<close>

text \<open>
  The file system is a finite map from path names to file contents, together with the
  clock.  Two names denote the same file only if they are equal.  Directories are no part
  of the state: \<^verbatim>\<open>mkdir(parents=True, exist_ok=True)\<close> has no effect on it and a write
  never fails.  Permissions and device faults are outside of the model.  The clock counts
  microseconds; every reading of \<^verbatim>\<open>datetime.now\<close> advances it, so that successive
  readings differ.
\<close>

record world =
  files :: "string \<rightharpoonup> string"
  clock :: nat

datatype DiffOperation = CREATE | MODIFY | DELETE

text \<open>
  Messages are kept as structured values: the warnings of validation, and the exceptions
  with their arguments.  Their rendering as text is not modelled.  \<open>ValueError\<close> is the
  one that rejects an invalid diff, \<open>EnumValueError\<close> the \<^verbatim>\<open>ValueError\<close> of an enumeration
  for a text that names none of its members; \<open>RateLimitError\<close> carries the maximum, the
  period and the time to wait, and the three errors of the orchestrator carry what they
  were raised from.
\<close>

datatype warning =
    CreateExists string
  | NotFound DiffOperation string
  | Integrity string
  | SizeLimit string
  | LargeChange int string

datatype exn =
    ValueError string "warning list"
  | EnumValueError string
  | KeyError string
  | FileNotFoundError string
  | SameFileError string
  | IsADirectoryError string
  | UnicodeDecodeError string
  | TypeError string
  | IndexError string
  | LLMError string
  | RateLimitError int int int
  | PlanningError exn
  | ExecutionError exn
  | VerificationError "string list"
  | OtherError string

definition exists :: "world \<Rightarrow> string \<Rightarrow> bool" where
  "exists w p = (files w p \<noteq> None)"

definition read_bytes :: "world \<Rightarrow> string \<Rightarrow> exn + string" where
  "read_bytes w p = (case files w p of None \<Rightarrow> Inl (FileNotFoundError p) | Some c \<Rightarrow> Inr c)"

definition read_text :: "world \<Rightarrow> string \<Rightarrow> exn + string" where
  "read_text w p =
     (case files w p of None \<Rightarrow> Inl (FileNotFoundError p) | Some c \<Rightarrow> Inr (universal_newlines c))"

text \<open>
  \<^verbatim>\<open>read_text(encoding="utf-8")\<close> with no error handler is strict: it raises on a file
  whose bytes are not well-formed UTF-8.  \<open>utf8_valid\<close> follows the table of well-formed
  byte sequences: no overlong form, no surrogate, nothing above U+10FFFF.
\<close>

definition cont :: "nat \<Rightarrow> bool" where
  "cont b = (128 \<le> b \<and> b \<le> 191)"

fun utf8_valid :: "nat list \<Rightarrow> bool" where
  "utf8_valid [] = True"
| "utf8_valid (b # bs) =
     (if b < 128 then utf8_valid bs
      else if 194 \<le> b \<and> b \<le> 223
      then (case bs of
              c1 # r \<Rightarrow> cont c1 \<and> utf8_valid r
            | _ \<Rightarrow> False)
      else if 224 \<le> b \<and> b \<le> 239
      then (case bs of
              c1 # c2 # r \<Rightarrow>
                (if b = 224 then 160 \<le> c1 \<and> c1 \<le> 191
                 else if b = 237 then 128 \<le> c1 \<and> c1 \<le> 159
                 else cont c1) \<and> cont c2 \<and> utf8_valid r
            | _ \<Rightarrow> False)
      else if 240 \<le> b \<and> b \<le> 244
      then (case bs of
              c1 # c2 # c3 # r \<Rightarrow>
                (if b = 240 then 144 \<le> c1 \<and> c1 \<le> 191
                 else if b = 244 then 128 \<le> c1 \<and> c1 \<le> 143
                 else cont c1) \<and> cont c2 \<and> cont c3 \<and> utf8_valid r
            | _ \<Rightarrow> False)
      else False)"

definition read_text_strict :: "world \<Rightarrow> string \<Rightarrow> exn + string" where
  "read_text_strict w p =
     (case files w p of
        None \<Rightarrow> Inl (FileNotFoundError p)
      | Some c \<Rightarrow>
          if utf8_valid (map of_char c) then Inr (universal_newlines c)
          else Inl (UnicodeDecodeError p))"

definition write_text :: "world \<Rightarrow> string \<Rightarrow> string \<Rightarrow> world" where
  "write_text w p c = w\<lparr>files := (files w)(p \<mapsto> c)\<rparr>"

definition unlink :: "world \<Rightarrow> string \<Rightarrow> exn + world" where
  "unlink w p =
     (if exists w p then Inr (w\<lparr>files := (files w)(p := None)\<rparr>) else Inl (FileNotFoundError p))"

text \<open>\<^verbatim>\<open>shutil.copy2(src, dst)\<close>: refuses to copy a file onto itself.\<close>

definition copy2 :: "world \<Rightarrow> string \<Rightarrow> string \<Rightarrow> exn + world" where
  "copy2 w src dst =
     (case files w src of
        None \<Rightarrow> Inl (FileNotFoundError src)
      | Some c \<Rightarrow> if src = dst then Inl (SameFileError src) else Inr (w\<lparr>files := (files w)(dst \<mapsto> c)\<rparr>))"

text \<open>\<^verbatim>\<open>datetime.now(timezone.utc)\<close>: the reading, and the world after it.\<close>

definition now :: "world \<Rightarrow> nat \<times> world" where
  "now w = (clock w, w\<lparr>clock := Suc (clock w)\<rparr>)"

section \<open>Diff engine\<close>

text \<open>
  A \<open>FileDiff\<close> is a pending or applied change of one file.  In a list of diffs every
  entry is an object of its own, as the lists built by the executor are; a function that
  mutates a diff in place returns the updated diff.
\<close>

record FileDiff =
  operation :: DiffOperation
  file_path :: string
  original_content :: "string option"
  new_content :: "string option"
  unified_diff :: "string option"
  line_changes :: "string \<rightharpoonup> int"
  applied :: bool
  backup_path :: "string option"
  checksum_before :: "string option"
  checksum_after :: "string option"
  applied_at :: "string option"

text \<open>
  The counters of \<open>ApplyResult\<close> and \<open>RollbackResult\<close>; their fields carry a prefix
  because both classes name them alike.  An entry of \<open>ar_errors\<close> is the dictionary
  with the keys index, file and error.
\<close>

record ApplyResult =
  ar_total :: int
  ar_applied :: int
  ar_failed :: int
  ar_skipped :: int
  ar_errors :: "(nat \<times> string \<times> exn) list"

definition ar_success :: "ApplyResult \<Rightarrow> bool" where
  "ar_success r = (ar_failed r = 0)"

record RollbackResult =
  rb_total :: int
  rb_rolled_back :: int
  rb_failed :: int

definition rb_success :: "RollbackResult \<Rightarrow> bool" where
  "rb_success r = (rb_failed r = 0)"

definition MAX_FILE_SIZE_BYTES :: nat where
  "MAX_FILE_SIZE_BYTES = 5 * 1024 * 1024"

definition LARGE_DIFF_LINES :: int where
  "LARGE_DIFF_LINES = 500"

record DiffEngine =
  workspace_root :: string
  backup_retention_days :: nat

definition backup_dir :: "DiffEngine \<Rightarrow> string" where
  "backup_dir self = path_join (workspace_root self) ''.project_core_backups''"

definition full_path_of :: "DiffEngine \<Rightarrow> string \<Rightarrow> string" where
  "full_path_of self fp = path_join (workspace_root self) fp"

definition sha :: "string option \<Rightarrow> string option" where
  "sha text = (if truthy text then Some (sha256_hexdigest (or_empty text)) else None)"

definition count_marked :: "string \<Rightarrow> string list \<Rightarrow> int" where
  "count_marked m ls =
     int (length (filter (\<lambda>l. startswith l m \<and> \<not> startswith l (m @ m @ m)) ls))"

text \<open>
  \<open>create_diff\<close> builds a diff and writes nothing.  The text comparison of
  \<^verbatim>\<open>difflib.unified_diff\<close> is not modelled: its result for the two contents is the
  argument \<open>diff_lines\<close>, and the counters are taken from it as the source takes them.
\<close>

definition create_diff ::
  "DiffEngine \<Rightarrow> world \<Rightarrow> string \<Rightarrow> string option \<Rightarrow> DiffOperation \<Rightarrow> string option \<Rightarrow> string list
     \<Rightarrow> FileDiff" where
  "create_diff self w fp new_c op orig diff_lines =
     (let full_path = full_path_of self fp;
          (op1, orig1) =
            (if op = MODIFY \<and> orig = None
             then (case read_text w full_path of
                     Inr text \<Rightarrow> (MODIFY, Some text)
                   | Inl e \<Rightarrow> (CREATE, None))
             else (op, orig));
          (unified, additions, deletions) =
            (if op1 = MODIFY \<or> op1 = DELETE
             then (if diff_lines \<noteq> [] then Some (join [CHR 0x0A] diff_lines) else None,
                   count_marked ''+'' diff_lines, count_marked ''-'' diff_lines)
             else (None, int (length (splitlines (or_empty new_c))), 0))
      in \<lparr>operation = op1, file_path = fp, original_content = orig1, new_content = new_c,
          unified_diff = unified,
          line_changes = [''additions'' \<mapsto> additions, ''deletions'' \<mapsto> deletions],
          applied = False, backup_path = None,
          checksum_before = sha orig1, checksum_after = sha new_c, applied_at = None\<rparr>)"

definition integrity_warnings :: "DiffEngine \<Rightarrow> world \<Rightarrow> FileDiff \<Rightarrow> warning list" where
  "integrity_warnings self w diff =
     (if operation diff = MODIFY \<and> truthy (checksum_before diff)
      then (case read_bytes w (full_path_of self (file_path diff)) of
              Inr bytes \<Rightarrow>
                (if Some (sha256_hexdigest bytes) \<noteq> checksum_before diff
                 then [Integrity (file_path diff)] else [])
            | Inl e \<Rightarrow> [])
      else [])"

text \<open>
  \<open>validate_diff\<close> only reads the world (existence of the target and its bytes); its
  result is the pair of the verdict and the warnings, or the \<^verbatim>\<open>KeyError\<close> of a
  \<open>line_changes\<close> dictionary without its two counters.
\<close>

definition validate_diff :: "DiffEngine \<Rightarrow> world \<Rightarrow> FileDiff \<Rightarrow> exn + bool \<times> warning list" where
  "validate_diff self w diff =
     (let full_path = full_path_of self (file_path diff)
      in if operation diff = CREATE \<and> exists w full_path
         then Inr (False, [CreateExists (file_path diff)])
         else if (operation diff = MODIFY \<or> operation diff = DELETE) \<and> \<not> exists w full_path
         then Inr (False, [NotFound (operation diff) (file_path diff)])
         else
           (let warnings = integrity_warnings self w diff
            in if length (or_empty (new_content diff)) > MAX_FILE_SIZE_BYTES
               then Inr (False, warnings @ [SizeLimit (file_path diff)])
               else (case line_changes diff ''additions'' of
                       None \<Rightarrow> Inl (KeyError ''additions'')
                     | Some a \<Rightarrow>
                         (case line_changes diff ''deletions'' of
                            None \<Rightarrow> Inl (KeyError ''deletions'')
                          | Some d \<Rightarrow>
                              Inr (True,
                                   warnings @
                                   (if a + d > LARGE_DIFF_LINES
                                    then [LargeChange (a + d) (file_path diff)] else []))))))"

text \<open>
  The backup of a file is named after the file, the time and the first six digits of the
  MD5 of its path.  The calendar format of the time stamp is replaced by the decimal
  numeral of the clock reading.
\<close>

definition backup_name :: "string \<Rightarrow> nat \<Rightarrow> string" where
  "backup_name p ts =
     path_name p @ ''.'' @ decimal ts @ ''.'' @ take 6 (md5_hexdigest p) @ ''.bak''"

definition create_backup :: "DiffEngine \<Rightarrow> world \<Rightarrow> string \<Rightarrow> (exn + string option) \<times> world" where
  "create_backup self w p =
     (if \<not> exists w p then (Inr None, w)
      else
        (let (ts, w1) = now w;
             bp = path_join (backup_dir self) (backup_name p ts)
         in case copy2 w1 p bp of
              Inl e \<Rightarrow> (Inl e, w1)
            | Inr w2 \<Rightarrow> (Inr (Some bp), w2)))"

text \<open>
  The directories that are sure to exist are derived from the state: the workspace root
  and the backup directory, which the constructor of the engine makes, and every path
  under which a file lies.  For such a path \<^verbatim>\<open>Path.exists\<close> holds, and a copy from it
  raises.
\<close>

definition is_dir :: "DiffEngine \<Rightarrow> world \<Rightarrow> string \<Rightarrow> bool" where
  "is_dir self w p =
     (files w p = None \<and>
      (p = workspace_root self \<or> p = backup_dir self \<or>
       (\<exists>f \<in> dom (files w). startswith f (p @ ''/''))))"

text \<open>
  \<open>restore_backup\<close> copies the backup over the target where the backup path exists, and
  only warns where it does not.  The copy raises where the backup is the target itself or
  a directory.
\<close>

definition restore_backup :: "DiffEngine \<Rightarrow> world \<Rightarrow> string \<Rightarrow> string \<Rightarrow> exn + world" where
  "restore_backup self w p bp =
     (if exists w bp then copy2 w bp p
      else if is_dir self w bp then Inl (IsADirectoryError bp)
      else Inr w)"

text \<open>
  \<open>apply_diff\<close> returns \<^verbatim>\<open>True\<close> or raises; with the outcome come the world and the
  diff as the call leaves them.
\<close>

definition mark_applied :: "world \<Rightarrow> FileDiff \<Rightarrow> (exn + bool) \<times> world \<times> FileDiff" where
  "mark_applied w diff =
     (let (t, w') = now w
      in (Inr True, w', diff\<lparr>applied := True, applied_at := Some (decimal t)\<rparr>))"

definition apply_diff ::
  "DiffEngine \<Rightarrow> world \<Rightarrow> FileDiff \<Rightarrow> bool \<Rightarrow> (exn + bool) \<times> world \<times> FileDiff" where
  "apply_diff self w diff dry_run =
     (case validate_diff self w diff of
        Inl e \<Rightarrow> (Inl e, w, diff)
      | Inr (valid, warnings) \<Rightarrow>
          if \<not> valid then (Inl (ValueError (file_path diff) warnings), w, diff)
          else if dry_run then (Inr True, w, diff)
          else
            (let full_path = full_path_of self (file_path diff)
             in case operation diff of
                  CREATE \<Rightarrow>
                    mark_applied (write_text w full_path (or_empty (new_content diff))) diff
                | MODIFY \<Rightarrow>
                    (case create_backup self w full_path of
                       (Inl e, w1) \<Rightarrow> (Inl e, w1, diff)
                     | (Inr bp, w1) \<Rightarrow>
                         mark_applied (write_text w1 full_path (or_empty (new_content diff)))
                           (diff\<lparr>backup_path := bp\<rparr>))
                | DELETE \<Rightarrow>
                    (case create_backup self w full_path of
                       (Inl e, w1) \<Rightarrow> (Inl e, w1, diff)
                     | (Inr bp, w1) \<Rightarrow>
                         (case unlink w1 full_path of
                            Inl e \<Rightarrow> (Inl e, w1, diff\<lparr>backup_path := bp\<rparr>)
                          | Inr w2 \<Rightarrow> mark_applied w2 (diff\<lparr>backup_path := bp\<rparr>)))))"

text \<open>
  \<open>rollback_diff\<close> returns whether the diff counts as undone.  An exception of a file
  operation is caught and gives \<^verbatim>\<open>False\<close>.
\<close>

definition rollback_diff :: "DiffEngine \<Rightarrow> world \<Rightarrow> FileDiff \<Rightarrow> bool \<times> world \<times> FileDiff" where
  "rollback_diff self w diff =
     (if \<not> applied diff then (True, w, diff)
      else
        (let full_path = full_path_of self (file_path diff)
         in if operation diff = CREATE
            then (case (if exists w full_path then unlink w full_path else Inr w) of
                    Inl e \<Rightarrow> (False, w, diff)
                  | Inr w' \<Rightarrow> (True, w', diff\<lparr>applied := False\<rparr>))
            else if truthy (backup_path diff)
            then (case restore_backup self w full_path (or_empty (backup_path diff)) of
                    Inl e \<Rightarrow> (False, w, diff)
                  | Inr w' \<Rightarrow> (True, w', diff\<lparr>applied := False\<rparr>))
            else (case original_content diff of
                    Some oc \<Rightarrow> (True, write_text w full_path oc, diff\<lparr>applied := False\<rparr>)
                  | None \<Rightarrow> (False, w, diff))))"

text \<open>
  \<open>rollback_diffs\<close> walks the list from its last diff to its first; the diffs come
  back in the order of the argument.
\<close>

fun rollback_each ::
  "DiffEngine \<Rightarrow> world \<Rightarrow> FileDiff list \<Rightarrow> int \<Rightarrow> int \<Rightarrow> int \<times> int \<times> world \<times> FileDiff list" where
  "rollback_each self w [] rolled_back failed = (rolled_back, failed, w, [])"
| "rollback_each self w (d # ds) rolled_back failed =
     (case rollback_diff self w d of
        (ok, w', d') \<Rightarrow>
          (case rollback_each self w' ds
                  (if ok then rolled_back + 1 else rolled_back)
                  (if ok then failed else failed + 1) of
             (rb, fl, w'', ds') \<Rightarrow> (rb, fl, w'', d' # ds')))"

definition rollback_diffs ::
  "DiffEngine \<Rightarrow> world \<Rightarrow> FileDiff list \<Rightarrow> RollbackResult \<times> world \<times> FileDiff list" where
  "rollback_diffs self w diffs =
     (case rollback_each self w (rev diffs) 0 0 of
        (rb, fl, w', ds') \<Rightarrow>
          (\<lparr>rb_total = int (length diffs), rb_rolled_back = rb, rb_failed = fl\<rparr>, w', rev ds'))"

text \<open>
  The loop of \<open>apply_diffs\<close>.  \<open>done\<close> holds the diffs already visited and \<open>rest\<close> those
  still to come, so that the index of the current diff is \<open>length done\<close>;
  \<open>applied_so_far\<close> holds the positions of the diffs that were applied, which stand for
  the references the source keeps.  After a rollback the diffs are written back to their
  positions.
\<close>

definition write_back :: "nat list \<Rightarrow> FileDiff list \<Rightarrow> FileDiff list \<Rightarrow> FileDiff list" where
  "write_back positions objs diffs = fold (\<lambda>(i, d) ds. ds[i := d]) (zip positions objs) diffs"

fun apply_loop ::
  "DiffEngine \<Rightarrow> bool \<Rightarrow> bool \<Rightarrow> FileDiff list \<Rightarrow> FileDiff list \<Rightarrow> nat list \<Rightarrow> ApplyResult \<Rightarrow> world
     \<Rightarrow> ApplyResult \<times> world \<times> FileDiff list" where
  "apply_loop self dry_run stop_on_error done [] applied_so_far result w = (result, w, done)"
| "apply_loop self dry_run stop_on_error done (diff # rest) applied_so_far result w =
     (case apply_diff self w diff dry_run of
        (Inr ok, w', diff') \<Rightarrow>
          apply_loop self dry_run stop_on_error (done @ [diff']) rest
            (applied_so_far @ [length done]) (result\<lparr>ar_applied := ar_applied result + 1\<rparr>) w'
      | (Inl e, w', diff') \<Rightarrow>
          (let result' = result\<lparr>ar_failed := ar_failed result + 1,
                               ar_errors := ar_errors result @ [(length done, file_path diff, e)]\<rparr>
           in if stop_on_error
              then (let diffs = done @ [diff'] @ rest
                    in case rollback_diffs self w' (map (\<lambda>i. diffs ! i) applied_so_far) of
                         (rb, w'', objs) \<Rightarrow>
                           (result'\<lparr>ar_applied := ar_applied result' - rb_rolled_back rb\<rparr>, w'',
                            write_back applied_so_far objs diffs))
              else apply_loop self dry_run stop_on_error (done @ [diff']) rest applied_so_far
                     result' w'))"

definition apply_diffs ::
  "DiffEngine \<Rightarrow> world \<Rightarrow> FileDiff list \<Rightarrow> bool \<Rightarrow> bool \<Rightarrow> ApplyResult \<times> world \<times> FileDiff list" where
  "apply_diffs self w diffs dry_run stop_on_error =
     apply_loop self dry_run stop_on_error [] diffs []
       \<lparr>ar_total = int (length diffs), ar_applied = 0, ar_failed = 0, ar_skipped = 0,
        ar_errors = []\<rparr> w"

text \<open>
  Applying the diffs of a list one after the other, each in the world the one before left:
  the world and the updated diffs when every one of them is applied, \<open>None\<close> as soon as one
  raises.
\<close>

fun apply_seq ::
  "DiffEngine \<Rightarrow> bool \<Rightarrow> world \<Rightarrow> FileDiff list \<Rightarrow> (world \<times> FileDiff list) option" where
  "apply_seq self dry_run w [] = Some (w, [])"
| "apply_seq self dry_run w (d # ds) =
     (case apply_diff self w d dry_run of
        (Inl e, w', d') \<Rightarrow> None
      | (Inr ok, w', d') \<Rightarrow>
          (case apply_seq self dry_run w' ds of
             None \<Rightarrow> None
           | Some (w'', ds') \<Rightarrow> Some (w'', d' # ds')))"

section \<open>Executor\<close>

text \<open>
  A plan step is a dictionary; a key that may be missing is an optional field, and
  \<open>get_or\<close> is \<^verbatim>\<open>step.get(key, default)\<close>.  Of the plan only the steps and the approval
  flag are modelled.
\<close>

record PlanStep =
  step_action :: "string option"
  step_file_path :: "string option"
  step_code_intent :: "string option"
  step_description :: "string option"
  step_dependencies :: "string list"

record Plan =
  plan_steps :: "PlanStep list"
  plan_requires_approval :: bool

definition get_or :: "'a \<Rightarrow> 'a option \<Rightarrow> 'a" where
  "get_or dflt x = (case x of None \<Rightarrow> dflt | Some v \<Rightarrow> v)"

text \<open>
  What the executor asks of the outside is an argument of the model: \<open>prompt_fault\<close> is
  the exception that the building of the prompt raises for a step and the text it
  modifies, if it does (an entry of the plan or of the step that is not of the expected
  type), \<open>llm_generate\<close> is the outcome of \<^verbatim>\<open>await self.llm.generate(...)\<close> for the
  prompt built from a step and the text it modifies (the raw answer, or the exception
  raised), \<open>extract_code\<close> is the extraction of the code from a raw answer for a language,
  which the source does with regular expressions, and \<open>unified_diff_lines\<close> gives the
  lines of \<^verbatim>\<open>difflib.unified_diff\<close> for an original text, a new text and a path.
\<close>

record Env =
  prompt_fault :: "PlanStep \<Rightarrow> string \<Rightarrow> exn option"
  llm_generate :: "PlanStep \<Rightarrow> string \<Rightarrow> exn + string"
  extract_code :: "string \<Rightarrow> string \<Rightarrow> string"
  unified_diff_lines :: "string \<Rightarrow> string \<Rightarrow> string \<Rightarrow> string list"

definition EXTENSION_TO_LANGUAGE :: "(string \<times> string) list" where
  "EXTENSION_TO_LANGUAGE =
     [(''.py'', ''python''), (''.js'', ''javascript''), (''.jsx'', ''javascript''),
      (''.ts'', ''typescript''), (''.tsx'', ''typescript''), (''.sql'', ''sql''),
      (''.sh'', ''shell''), (''.bash'', ''shell''), (''.yaml'', ''yaml''), (''.yml'', ''yaml''),
      (''.json'', ''json''), (''.md'', ''markdown''), (''.html'', ''html''), (''.css'', ''css''),
      (''.scss'', ''css''), (''.toml'', ''toml''), (''.env'', ''env'')]"

text \<open>\<^verbatim>\<open>Path.suffix\<close>: the part of the name from its last dot, unless the dot comes first or last.\<close>

definition path_suffix :: "string \<Rightarrow> string" where
  "path_suffix p =
     (let name = path_name p;
          ext = rev (takeWhile (\<lambda>c. c \<noteq> CHR ''.'') (rev name))
      in if CHR ''.'' \<in> set name \<and> ext \<noteq> [] \<and> length ext + 1 < length name
         then CHR ''.'' # ext else [])"

text \<open>\<^verbatim>\<open>str.lower\<close> on the ASCII letters.\<close>

definition lower :: "string \<Rightarrow> string" where
  "lower s =
     map (\<lambda>c. if 65 \<le> (of_char c :: nat) \<and> (of_char c :: nat) \<le> 90
              then char_of ((of_char c :: nat) + 32) else c) s"

definition detect_language :: "string \<Rightarrow> string" where
  "detect_language fp =
     (case map_of EXTENSION_TO_LANGUAGE (lower (path_suffix fp)) of
        None \<Rightarrow> ''unknown''
      | Some l \<Rightarrow> l)"

text \<open>
  The number of code points of a text, which is what \<^verbatim>\<open>len\<close> counts: the bytes that do
  not continue a character.
\<close>

definition py_len :: "string \<Rightarrow> nat" where
  "py_len s = length (filter (\<lambda>c. \<not> (128 \<le> (of_char c :: nat) \<and> (of_char c :: nat) < 192)) s)"

text \<open>
  The stubs are written in the source with an escaped backslash, so that they hold the
  two characters backslash and n where a line break was meant.
\<close>

definition bsn :: string where
  "bsn = [CHR 0x5C, CHR ''n'']"

definition stub :: "string \<Rightarrow> string \<Rightarrow> string \<Rightarrow> string" where
  "stub fp language intent =
     (let name = path_name fp; q3 = replicate 3 (CHR 0x22)
      in if language = ''python''
         then q3 @ bsn @ name @ bsn @ bsn @ intent @ bsn @ q3 @ bsn @
              ''from __future__ import annotations'' @ bsn @ bsn @ ''# TODO: implement'' @ bsn
         else if language = ''typescript'' \<or> language = ''javascript''
         then ''/**'' @ bsn @ '' * '' @ name @ bsn @ '' * '' @ intent @ bsn @ '' */'' @ bsn @ bsn @
              ''// TODO: implement'' @ bsn
         else if language = ''sql''
         then ''-- '' @ name @ bsn @ ''-- '' @ intent @ bsn @ bsn @ ''-- TODO: implement'' @ bsn
         else if language = ''shell''
         then ''#!/usr/bin/env bash'' @ bsn @ ''# '' @ name @ [CHR 0x20, CHR 0xE2, CHR 0x80, CHR 0x94, CHR 0x20] @
              intent @ bsn @ ''set -euo pipefail'' @ bsn @ bsn @ ''# TODO: implement'' @ bsn
         else ''# '' @ intent @ bsn @ ''# TODO: implement'' @ bsn)"

definition todo_marker :: "string \<Rightarrow> string" where
  "todo_marker intent = [CHR 0x0A, CHR 0x0A] @ ''# TODO: '' @ intent @ [CHR 0x0A]"

text \<open>
  The generators build the prompt before they enter their \<^verbatim>\<open>try\<close>: an exception of the
  building leaves them, one of the generation call is caught and answered with a
  placeholder.
\<close>

definition generate_new_file :: "Env \<Rightarrow> string \<Rightarrow> string \<Rightarrow> string \<Rightarrow> PlanStep \<Rightarrow> exn + string" where
  "generate_new_file env fp intent language step =
     (case prompt_fault env step [] of
        Some exc \<Rightarrow> Inl exc
      | None \<Rightarrow>
          (case llm_generate env step [] of
             Inr raw \<Rightarrow> Inr (extract_code env raw language)
           | Inl exc \<Rightarrow> Inr (stub fp language intent)))"

definition generate_modification ::
  "Env \<Rightarrow> string \<Rightarrow> string \<Rightarrow> string \<Rightarrow> string \<Rightarrow> PlanStep \<Rightarrow> exn + string" where
  "generate_modification env fp original intent language step =
     (case prompt_fault env step original of
        Some exc \<Rightarrow> Inl exc
      | None \<Rightarrow>
          (case llm_generate env step original of
             Inr raw \<Rightarrow>
               (let code = extract_code env raw language
                in if py_len code < 20 \<and> py_len original > 50
                   then Inr (original @ todo_marker intent) else Inr code)
           | Inl exc \<Rightarrow> Inr (original @ todo_marker intent)))"

text \<open>
  The outcome of a step and the entries of the error list of an execution.  The result
  of a step is the dictionary with the keys success, diff and error.
\<close>

datatype exec_error =
    NoFilePath
  | UnknownAction string
  | UnknownError
  | Raised exn
  | DiffsFailed int

record StepResult =
  sr_success :: bool
  sr_diff :: "FileDiff option"
  sr_error :: "exec_error option"

definition step_ok :: "FileDiff \<Rightarrow> StepResult" where
  "step_ok d = \<lparr>sr_success = True, sr_diff = Some d, sr_error = None\<rparr>"

definition step_failed :: "exec_error \<Rightarrow> StepResult" where
  "step_failed e = \<lparr>sr_success = False, sr_diff = None, sr_error = Some e\<rparr>"

text \<open>
  One step.  It reads the workspace and writes nothing.  \<open>workspace\<close> is the project's
  workspace path, from which a modify step reads the file: \<open>original_of\<close> is the text of
  the file, or the empty text where there is none; the reading is strict and raises on a
  file that is not well-formed UTF-8, and it raises on a directory.  \<open>step_body\<close> is the body of the \<^verbatim>\<open>try\<close> statement
  of the step, and \<open>execute_step_inner\<close> turns an exception of the body into a failed
  step.
\<close>

definition original_of :: "DiffEngine \<Rightarrow> world \<Rightarrow> string \<Rightarrow> string \<Rightarrow> exn + string" where
  "original_of self w workspace fp =
     (if exists w (path_join workspace fp) then read_text_strict w (path_join workspace fp)
      else if is_dir self w (path_join workspace fp)
      then Inl (IsADirectoryError (path_join workspace fp))
      else Inr [])"

definition step_body ::
  "Env \<Rightarrow> DiffEngine \<Rightarrow> string \<Rightarrow> world \<Rightarrow> PlanStep \<Rightarrow> string \<Rightarrow> string \<Rightarrow> string
     \<Rightarrow> exn + StepResult" where
  "step_body env self workspace w step action fp code_intent =
     (let language = detect_language fp
      in if action = ''create''
         then (case generate_new_file env fp code_intent language step of
                 Inl exc \<Rightarrow> Inl exc
               | Inr code \<Rightarrow> Inr (step_ok (create_diff self w fp (Some code) CREATE None [])))
         else if action = ''modify''
         then (case original_of self w workspace fp of
                 Inl exc \<Rightarrow> Inl exc
               | Inr original \<Rightarrow>
                   (case generate_modification env fp original code_intent language step of
                      Inl exc \<Rightarrow> Inl exc
                    | Inr modified \<Rightarrow>
                        Inr (step_ok (create_diff self w fp (Some modified) MODIFY (Some original)
                                        (unified_diff_lines env original modified fp)))))
         else if action = ''delete''
         then Inr (step_ok (create_diff self w fp (Some []) DELETE None
                              (unified_diff_lines env [] [] fp)))
         else Inr (step_failed (UnknownAction action)))"

definition execute_step_inner ::
  "Env \<Rightarrow> DiffEngine \<Rightarrow> string \<Rightarrow> world \<Rightarrow> PlanStep \<Rightarrow> StepResult" where
  "execute_step_inner env self workspace w step =
     (let action = get_or ''modify'' (step_action step);
          fp = get_or [] (step_file_path step);
          code_intent = get_or [] (step_code_intent step)
      in if fp = [] then step_failed NoFilePath
         else (case step_body env self workspace w step action fp code_intent of
                 Inl exc \<Rightarrow> step_failed (Raised exc)
               | Inr result \<Rightarrow> result))"

text \<open>
  \<open>execute_step\<close> takes a slot of the semaphore around the step.  The step catches
  every exception of its body, so that none leaves it.
\<close>

definition execute_step :: "Env \<Rightarrow> DiffEngine \<Rightarrow> string \<Rightarrow> world \<Rightarrow> PlanStep \<Rightarrow> StepResult" where
  "execute_step env self workspace w step = execute_step_inner env self workspace w step"

fun partition_loop ::
  "PlanStep list \<Rightarrow> string set \<Rightarrow> PlanStep list \<Rightarrow> PlanStep list \<Rightarrow> PlanStep list \<times> PlanStep list" where
  "partition_loop [] seen_files independent dependent = (independent, dependent)"
| "partition_loop (step # steps) seen_files independent dependent =
     (let deps = step_dependencies step;
          fp = get_or [] (step_file_path step);
          is_independent = (deps = [] \<and> fp \<notin> seen_files \<and> step_action step = Some ''create'');
          seen' = (if fp \<noteq> [] then insert fp seen_files else seen_files)
      in if is_independent
         then partition_loop steps seen' (independent @ [step]) dependent
         else partition_loop steps seen' independent (dependent @ [step]))"

definition partition_steps :: "PlanStep list \<Rightarrow> PlanStep list \<times> PlanStep list" where
  "partition_steps steps = partition_loop steps {} [] []"

record ExecResults =
  er_files_created :: "string list"
  er_files_modified :: "string list"
  er_files_deleted :: "string list"
  er_files_generated :: int
  er_diffs :: "FileDiff list"
  er_errors :: "exec_error list"
  er_success :: bool
  er_dry_run :: bool

definition merge_one :: "ExecResults \<Rightarrow> PlanStep \<Rightarrow> exn + StepResult \<Rightarrow> ExecResults" where
  "merge_one results step sr =
     (case sr of
        Inl exc \<Rightarrow> results\<lparr>er_errors := er_errors results @ [Raised exc], er_success := False\<rparr>
      | Inr r \<Rightarrow>
          (case (sr_success r, sr_diff r) of
             (True, Some d) \<Rightarrow>
               (let results1 = results\<lparr>er_diffs := er_diffs results @ [d],
                                       er_files_generated := er_files_generated results + 1\<rparr>;
                    action = get_or ''modify'' (step_action step);
                    fp = get_or [] (step_file_path step)
                in if action = ''create''
                   then results1\<lparr>er_files_created := er_files_created results1 @ [fp]\<rparr>
                   else if action = ''modify''
                   then results1\<lparr>er_files_modified := er_files_modified results1 @ [fp]\<rparr>
                   else if action = ''delete''
                   then results1\<lparr>er_files_deleted := er_files_deleted results1 @ [fp]\<rparr>
                   else results1)
           | (True, None) \<Rightarrow> results
           | (False, _) \<Rightarrow>
               results\<lparr>er_errors := er_errors results @ [get_or UnknownError (sr_error r)],
                       er_success := False\<rparr>))"

fun merge_results :: "ExecResults \<Rightarrow> PlanStep list \<Rightarrow> (exn + StepResult) list \<Rightarrow> ExecResults" where
  "merge_results results (step # steps) (sr # srs) =
     merge_results (merge_one results step sr) steps srs"
| "merge_results results _ _ = results"

text \<open>
  Subscripting an object calls \<^verbatim>\<open>__getitem__\<close> of its class.  \<open>ApplyResult\<close> and
  \<open>RollbackResult\<close> are data classes that define none, so that \<^verbatim>\<open>result["failed"]\<close> raises
  \<^verbatim>\<open>TypeError\<close> whatever the key.
\<close>

definition getitem_ApplyResult :: "ApplyResult \<Rightarrow> string \<Rightarrow> exn + int" where
  "getitem_ApplyResult r key = Inl (TypeError ''ApplyResult object is not subscriptable'')"

definition getitem_RollbackResult :: "RollbackResult \<Rightarrow> string \<Rightarrow> exn + int" where
  "getitem_RollbackResult r key = Inl (TypeError ''RollbackResult object is not subscriptable'')"

text \<open>
  The steps of a plan run before any diff is applied, all in the world the call starts
  from: the independent ones are gathered, which hands on their results in the order of
  the steps, the dependent ones follow one by one.  The outcome of \<open>execute_plan\<close> is the
  result dictionary or the exception that leaves the call, with the world as the call
  leaves it.
\<close>

definition run_steps ::
  "Env \<Rightarrow> DiffEngine \<Rightarrow> string \<Rightarrow> world \<Rightarrow> ExecResults \<Rightarrow> PlanStep list \<Rightarrow> ExecResults" where
  "run_steps env self workspace w results steps =
     (let (independent, dependent) = partition_steps steps;
          results1 = (if independent \<noteq> []
                      then merge_results results independent
                             (map (\<lambda>s. Inr (execute_step env self workspace w s)) independent)
                      else results)
      in fold (\<lambda>step res. merge_results res [step] [Inr (execute_step env self workspace w step)])
           dependent results1)"

definition initial_results :: "bool \<Rightarrow> ExecResults" where
  "initial_results dry_run =
     \<lparr>er_files_created = [], er_files_modified = [], er_files_deleted = [],
      er_files_generated = 0, er_diffs = [], er_errors = [], er_success = True,
      er_dry_run = dry_run\<rparr>"

definition execute_plan ::
  "Env \<Rightarrow> DiffEngine \<Rightarrow> string \<Rightarrow> world \<Rightarrow> Plan \<Rightarrow> bool \<Rightarrow> (exn + ExecResults) \<times> world" where
  "execute_plan env self workspace w plan dry_run =
     (let results = run_steps env self workspace w (initial_results dry_run) (plan_steps plan)
      in if er_diffs results \<noteq> [] \<and> \<not> dry_run
         then (case apply_diffs self w (er_diffs results) False True of
                 (apply_result, w', diffs') \<Rightarrow>
                   (case getitem_ApplyResult apply_result ''failed'' of
                      Inl exc \<Rightarrow> (Inl exc, w')
                    | Inr failed \<Rightarrow>
                        if failed > 0
                        then (Inr (results\<lparr>er_diffs := diffs', er_success := False,
                                           er_errors := er_errors results @ [DiffsFailed failed]\<rparr>),
                              w')
                        else (Inr (results\<lparr>er_diffs := diffs'\<rparr>), w')))
         else (Inr results, w))"

section \<open>Verifier\<close>

record TestResult =
  tr_tests_run :: int
  tr_tests_passed :: int
  tr_tests_failed :: int
  tr_tests_skipped :: int
  tr_output :: string
  tr_errors :: "string list"
  tr_passed :: bool

definition TestResult0 :: TestResult where
  "TestResult0 = \<lparr>tr_tests_run = 0, tr_tests_passed = 0, tr_tests_failed = 0,
                   tr_tests_skipped = 0, tr_output = [], tr_errors = [], tr_passed = False\<rparr>"

record LintResult =
  lr_valid :: bool
  lr_errors :: "string list"
  lr_warnings :: "string list"
  lr_tool :: string

record VerificationReport =
  vr_passed :: bool
  vr_tests_run :: int
  vr_tests_passed :: int
  vr_tests_failed :: int
  vr_tests_skipped :: int
  vr_test_output :: string
  vr_syntax_valid :: bool
  vr_lint_valid :: bool
  vr_errors :: "string list"
  vr_warnings :: "string list"
  vr_coverage_percent :: "nat option"
  vr_lint_details :: "string list"
  vr_framework_used :: string

text \<open>
  The tools that the verifier runs are arguments of the model: the scan of the workspace
  for test files, the reading of the test script from the package manifest (which may
  raise), the two test runners, the syntax checkers of the four kinds of file, of which
  the ones for JavaScript and JSON may let an exception through, the findings of the two
  linters (the error lines and the warning lines, or the text of an exception that
  leaves the call), and the reading of the coverage from the output of the test runner.
\<close>

record Tools =
  rglob_test_files :: "string \<Rightarrow> string list"
  manifest_has_test_script :: "string \<Rightarrow> string + bool"
  run_pytest :: "string \<Rightarrow> TestResult"
  run_npm_test :: "string \<Rightarrow> TestResult"
  check_python_syntax :: "string \<Rightarrow> string \<Rightarrow> string list"
  check_ts_syntax :: "string \<Rightarrow> string \<Rightarrow> string list"
  check_js_syntax :: "string \<Rightarrow> string \<Rightarrow> string + string list"
  check_json_syntax :: "string \<Rightarrow> string \<Rightarrow> string + string list"
  ruff_findings :: "string \<Rightarrow> string list \<Rightarrow> string + string list \<times> string list"
  eslint_findings :: "string \<Rightarrow> string list \<Rightarrow> string + string list \<times> string list"
  parse_coverage :: "string \<Rightarrow> nat option"

definition has_pytest :: "Tools \<Rightarrow> world \<Rightarrow> string \<Rightarrow> bool" where
  "has_pytest tools w workspace =
     (if list_ex (\<lambda>f. exists w (path_join workspace f))
           [''pytest.ini'', ''pyproject.toml'', ''setup.cfg'', ''conftest.py'']
      then True
      else take 1 (rglob_test_files tools workspace) \<noteq> [])"

definition has_npm_test :: "Tools \<Rightarrow> world \<Rightarrow> string \<Rightarrow> bool" where
  "has_npm_test tools w workspace =
     (if \<not> exists w (path_join workspace ''package.json'') then False
      else (case manifest_has_test_script tools workspace of
              Inr b \<Rightarrow> b
            | Inl exc \<Rightarrow> False))"

definition check_file_syntax :: "Tools \<Rightarrow> world \<Rightarrow> string \<Rightarrow> string \<Rightarrow> string + string list" where
  "check_file_syntax tools w full_path rel_path =
     (if \<not> exists w full_path then Inr []
      else (let suffix = lower (path_suffix full_path)
            in if suffix = ''.py'' then Inr (check_python_syntax tools full_path rel_path)
               else if suffix = ''.ts'' \<or> suffix = ''.tsx''
               then Inr (check_ts_syntax tools full_path rel_path)
               else if suffix = ''.js'' \<or> suffix = ''.jsx''
               then check_js_syntax tools full_path rel_path
               else if suffix = ''.json'' then check_json_syntax tools full_path rel_path
               else Inr []))"

fun collect_syntax :: "(string + string list) list \<Rightarrow> string list" where
  "collect_syntax [] = []"
| "collect_syntax (Inl exc # rs) = exc # collect_syntax rs"
| "collect_syntax (Inr errs # rs) = errs @ collect_syntax rs"

definition check_syntax_parallel ::
  "Tools \<Rightarrow> world \<Rightarrow> string \<Rightarrow> string list \<Rightarrow> bool \<times> string list" where
  "check_syntax_parallel tools w workspace file_paths =
     (let errors = collect_syntax
                     (map (\<lambda>fp. check_file_syntax tools w (path_join workspace fp) fp) file_paths)
      in (errors = [], errors))"

text \<open>\<^verbatim>\<open>s.endswith(suffix)\<close>, and \<^verbatim>\<open>needle in s\<close> for two texts.\<close>

definition endswith :: "string \<Rightarrow> string \<Rightarrow> bool" where
  "endswith s suffix = (length suffix \<le> length s \<and> drop (length s - length suffix) s = suffix)"

fun contains :: "string \<Rightarrow> string \<Rightarrow> bool" where
  "contains [] needle = (needle = [])"
| "contains (c # cs) needle = (startswith (c # cs) needle \<or> contains cs needle)"

text \<open>
  Both linters start from a valid result and clear the flag where they record an error
  line, so that the result of a linter is valid exactly when it holds no error.
\<close>

definition lint_result_of :: "string \<Rightarrow> string list \<times> string list \<Rightarrow> LintResult" where
  "lint_result_of tool findings =
     \<lparr>lr_valid = (fst findings = []), lr_errors = fst findings, lr_warnings = snd findings,
      lr_tool = tool\<rparr>"

definition run_ruff :: "Tools \<Rightarrow> string \<Rightarrow> string list \<Rightarrow> string + LintResult" where
  "run_ruff tools workspace py_files =
     (case ruff_findings tools workspace py_files of
        Inl exc \<Rightarrow> Inl exc
      | Inr findings \<Rightarrow> Inr (lint_result_of ''ruff'' findings))"

definition run_eslint :: "Tools \<Rightarrow> world \<Rightarrow> string \<Rightarrow> string list \<Rightarrow> string + LintResult" where
  "run_eslint tools w workspace js_files =
     (if \<not> exists w (path_join workspace ''.eslintrc.json'') \<and>
         \<not> exists w (path_join workspace ''.eslintrc.js'')
      then Inr (lint_result_of ''eslint'' ([], []))
      else (case eslint_findings tools workspace js_files of
              Inl exc \<Rightarrow> Inl exc
            | Inr findings \<Rightarrow> Inr (lint_result_of ''eslint'' findings)))"

fun combine_lint :: "LintResult \<Rightarrow> (string + LintResult) list \<Rightarrow> LintResult" where
  "combine_lint combined [] = combined"
| "combine_lint combined (Inl exc # rs) = combine_lint combined rs"
| "combine_lint combined (Inr r # rs) =
     combine_lint
       (combined\<lparr>lr_valid := (if \<not> lr_valid r then False else lr_valid combined),
                 lr_errors := lr_errors combined @ lr_errors r,
                 lr_warnings := lr_warnings combined @ lr_warnings r\<rparr>) rs"

definition run_linting :: "Tools \<Rightarrow> world \<Rightarrow> string \<Rightarrow> string list \<Rightarrow> LintResult" where
  "run_linting tools w workspace file_paths =
     (let py_files = filter (\<lambda>fp. endswith fp ''.py'') file_paths;
          js_files = filter (\<lambda>fp. endswith fp ''.js'' \<or> endswith fp ''.jsx'' \<or>
                                   endswith fp ''.ts'' \<or> endswith fp ''.tsx'') file_paths;
          tasks = (if py_files \<noteq> [] then [run_ruff tools workspace py_files] else []) @
                  (if js_files \<noteq> [] then [run_eslint tools w workspace js_files] else [])
      in if tasks = []
         then \<lparr>lr_valid = True, lr_errors = [], lr_warnings = [], lr_tool = ''none''\<rparr>
         else combine_lint \<lparr>lr_valid = True, lr_errors = [], lr_warnings = [], lr_tool = ''multi''\<rparr>
                tasks)"

text \<open>The first \<open>n\<close> code points of a text, which is the slice \<^verbatim>\<open>s[:n]\<close>.\<close>

fun py_take :: "nat \<Rightarrow> string \<Rightarrow> string" where
  "py_take n [] = []"
| "py_take n (c # cs) =
     (if 128 \<le> (of_char c :: nat) \<and> (of_char c :: nat) < 192 then c # py_take n cs
      else (case n of 0 \<Rightarrow> [] | Suc m \<Rightarrow> c # py_take m cs))"

definition verify_execution :: "Tools \<Rightarrow> world \<Rightarrow> string \<Rightarrow> ExecResults \<Rightarrow> VerificationReport" where
  "verify_execution tools w workspace execution_result =
     (let (framework_used, test_result) =
            (if has_pytest tools w workspace then (''pytest'', run_pytest tools workspace)
             else if has_npm_test tools w workspace then (''npm'', run_npm_test tools workspace)
             else ([], TestResult0\<lparr>tr_passed := True\<rparr>));
          coverage = (if framework_used = ''pytest''
                      then parse_coverage tools (tr_output test_result) else None);
          changed_files = er_files_created execution_result @ er_files_modified execution_result;
          (syntax_ok, syntax_errors) =
            (if changed_files \<noteq> [] then check_syntax_parallel tools w workspace changed_files
             else (True, []));
          lint_result =
            (if changed_files \<noteq> [] then run_linting tools w workspace changed_files
             else \<lparr>lr_valid = True, lr_errors = [], lr_warnings = [], lr_tool = []\<rparr>);
          all_errors = tr_errors test_result @ (if \<not> syntax_ok then syntax_errors else []) @
                       (if changed_files \<noteq> [] then lr_errors lint_result else []);
          all_warnings = (if changed_files \<noteq> [] then lr_warnings lint_result else []);
          passed = (tr_passed test_result \<and> syntax_ok \<and> lr_valid lint_result \<and>
                    \<not> list_ex (\<lambda>e. contains (lower e) ''syntax error'') all_errors)
      in \<lparr>vr_passed = passed,
          vr_tests_run = tr_tests_run test_result,
          vr_tests_passed = tr_tests_passed test_result,
          vr_tests_failed = tr_tests_failed test_result,
          vr_tests_skipped = tr_tests_skipped test_result,
          vr_test_output = py_take 8000 (tr_output test_result),
          vr_syntax_valid = syntax_ok,
          vr_lint_valid = lr_valid lint_result,
          vr_errors = take 20 all_errors,
          vr_warnings = take 20 all_warnings,
          vr_coverage_percent = coverage,
          vr_lint_details = take 10 (lr_errors lint_result),
          vr_framework_used = framework_used\<rparr>)"

section \<open>Orchestrator\<close>

datatype ActionStatus =
  PENDING | PLANNING | EXECUTING | VERIFYING | COMPLETED | FAILED | CANCELLED | ROLLED_BACK

datatype EnginePhase = PHASE_PLANNING | PHASE_EXECUTING | PHASE_VERIFYING | PHASE_REFLECTING

text \<open>A row of the table of diffs that belongs to an action.\<close>

record DiffRow =
  row_file_path :: string
  row_operation :: string
  row_original_content :: "string option"
  row_new_content :: "string option"
  row_unified_diff :: string
  row_applied :: bool

record Reflection =
  refl_summary :: "string option"
  refl_error :: "exn option"

record Action =
  act_id :: int
  act_plan :: "Plan option"
  act_execution_result :: "ExecResults option"
  act_verification_result :: "VerificationReport option"
  act_reflection :: "string option"
  act_status :: ActionStatus
  act_requires_approval :: bool
  act_approved :: "bool option"
  act_error :: "exn option"
  act_started_at :: "nat option"
  act_completed_at :: "nat option"
  act_diffs :: "DiffRow list"

record CycleResult =
  res_action_id :: int
  res_phases_completed :: "EnginePhase list"
  res_success :: bool
  res_requires_approval :: bool
  res_plan :: "Plan option"
  res_execution :: "ExecResults option"
  res_verification :: "VerificationReport option"
  res_reflection :: "Reflection option"
  res_error :: "exn option"

text \<open>
  The planner and the reflector are arguments of the model: what \<^verbatim>\<open>create_plan\<close> and
  \<^verbatim>\<open>reflect_on_action\<close> return for this action, or the exception they raise, and the
  exception that the reading of the past lessons raises, if it does.
\<close>

record Collaborators =
  get_lessons_for_project :: "exn option"
  create_plan :: "exn + Plan"
  reflect_on_action :: "exn + Reflection"

text \<open>\<^verbatim>\<open>DiffOperation(text)\<close>\<close>

definition DiffOperation_of :: "string \<Rightarrow> exn + DiffOperation" where
  "DiffOperation_of s =
     (if s = ''create'' then Inr CREATE
      else if s = ''modify'' then Inr MODIFY
      else if s = ''delete'' then Inr DELETE
      else Inl (EnumValueError s))"

text \<open>
  The \<open>FileDiff\<close> that \<open>rollback_action\<close> builds from a row: the five arguments it
  passes, and the defaults of the class for the other fields.
\<close>

definition file_diff_of_row :: "DiffRow \<Rightarrow> exn + FileDiff" where
  "file_diff_of_row d =
     (case DiffOperation_of (row_operation d) of
        Inl exc \<Rightarrow> Inl exc
      | Inr op \<Rightarrow>
          Inr \<lparr>operation = op, file_path = row_file_path d,
               original_content = row_original_content d, new_content = row_new_content d,
               unified_diff = Some (row_unified_diff d),
               line_changes = [''additions'' \<mapsto> 0, ''deletions'' \<mapsto> 0],
               applied = False, backup_path = None, checksum_before = None,
               checksum_after = None, applied_at = None\<rparr>)"

fun file_diffs_of_rows :: "DiffRow list \<Rightarrow> exn + FileDiff list" where
  "file_diffs_of_rows [] = Inr []"
| "file_diffs_of_rows (d # ds) =
     (case file_diff_of_row d of
        Inl exc \<Rightarrow> Inl exc
      | Inr fd \<Rightarrow>
          (case file_diffs_of_rows ds of
             Inl exc \<Rightarrow> Inl exc
           | Inr fds \<Rightarrow> Inr (fd # fds)))"

definition rollback_action :: "DiffEngine \<Rightarrow> world \<Rightarrow> Action \<Rightarrow> (exn + unit) \<times> world" where
  "rollback_action self w action =
     (if act_diffs action = [] then (Inr (), w)
      else (case file_diffs_of_rows (act_diffs action) of
              Inl exc \<Rightarrow> (Inl exc, w)
            | Inr file_diffs \<Rightarrow>
                (case rollback_diffs self w file_diffs of
                   (result, w', ds) \<Rightarrow>
                     (case getitem_RollbackResult result ''rolled_back'' of
                        Inl exc \<Rightarrow> (Inl exc, w')
                      | Inr n_rolled_back \<Rightarrow>
                          (case getitem_RollbackResult result ''total'' of
                             Inl exc \<Rightarrow> (Inl exc, w')
                           | Inr n_total \<Rightarrow> (Inr (), w'))))))"

text \<open>The four phases.  Each returns its payload or the exception it raises.\<close>

definition plan_phase :: "Collaborators \<Rightarrow> world \<Rightarrow> Action \<Rightarrow> (exn + Plan) \<times> Action \<times> world" where
  "plan_phase coll w action =
     (let (t, w1) = now w;
          a1 = action\<lparr>act_status := PLANNING, act_started_at := Some t\<rparr>
      in case get_lessons_for_project coll of
           Some exc \<Rightarrow> (Inl exc, a1, w1)
         | None \<Rightarrow>
             (case create_plan coll of
                Inl exc \<Rightarrow> (Inl (PlanningError exc), a1, w1)
              | Inr plan \<Rightarrow>
                  (Inr plan,
                   a1\<lparr>act_plan := Some plan,
                      act_requires_approval :=
                        (if plan_requires_approval plan then True else act_requires_approval a1)\<rparr>,
                   w1)))"

definition execute_phase ::
  "Env \<Rightarrow> DiffEngine \<Rightarrow> string \<Rightarrow> world \<Rightarrow> Action \<Rightarrow> Plan \<Rightarrow> (exn + ExecResults) \<times> Action \<times> world" where
  "execute_phase env self workspace w action plan =
     (let a1 = action\<lparr>act_status := EXECUTING\<rparr>
      in case execute_plan env self workspace w plan False of
           (Inl exc, w') \<Rightarrow> (Inl (ExecutionError exc), a1, w')
         | (Inr result, w') \<Rightarrow> (Inr result, a1\<lparr>act_execution_result := Some result\<rparr>, w'))"

definition verify_phase ::
  "Tools \<Rightarrow> world \<Rightarrow> string \<Rightarrow> Action \<Rightarrow> ExecResults \<Rightarrow> (exn + VerificationReport) \<times> Action" where
  "verify_phase tools w workspace action execution =
     (let a1 = action\<lparr>act_status := VERIFYING\<rparr>;
          result = verify_execution tools w workspace execution;
          a2 = a1\<lparr>act_verification_result := Some result\<rparr>
      in if \<not> vr_passed result then (Inl (VerificationError (vr_errors result)), a2)
         else (Inr result, a2))"

definition reflect_phase :: "Collaborators \<Rightarrow> Action \<Rightarrow> Reflection \<times> Action" where
  "reflect_phase coll action =
     (case reflect_on_action coll of
        Inr reflection \<Rightarrow>
          (reflection, action\<lparr>act_reflection := Some (get_or [] (refl_summary reflection))\<rparr>)
      | Inl exc \<Rightarrow>
          (\<lparr>refl_summary = Some ''Reflection failed'', refl_error = Some exc\<rparr>, action))"

text \<open>\<open>rollback_phase\<close> catches what \<open>rollback_action\<close> raises and only logs it.\<close>

definition rollback_phase :: "DiffEngine \<Rightarrow> world \<Rightarrow> Action \<Rightarrow> world" where
  "rollback_phase self w action = snd (rollback_action self w action)"

text \<open>
  The handlers of \<open>process_intent\<close>: a verification error rolls back and ends in
  \<open>ROLLED_BACK\<close>, every other exception ends in \<open>FAILED\<close>.
\<close>

definition handle_exception ::
  "DiffEngine \<Rightarrow> exn \<Rightarrow> CycleResult \<Rightarrow> Action \<Rightarrow> world \<Rightarrow> CycleResult \<times> Action \<times> world" where
  "handle_exception self exc result action w =
     (case exc of
        VerificationError errs \<Rightarrow>
          (let w' = rollback_phase self w action
           in (result\<lparr>res_error := Some exc\<rparr>,
               action\<lparr>act_status := ROLLED_BACK, act_error := Some exc\<rparr>, w'))
      | _ \<Rightarrow>
          (result\<lparr>res_error := Some exc\<rparr>,
           action\<lparr>act_status := FAILED, act_error := Some exc\<rparr>, w))"

definition process_intent ::
  "Collaborators \<Rightarrow> Env \<Rightarrow> Tools \<Rightarrow> DiffEngine \<Rightarrow> string \<Rightarrow> world \<Rightarrow> Action
     \<Rightarrow> CycleResult \<times> Action \<times> world" where
  "process_intent coll env tools self workspace w action =
     (let result0 = \<lparr>res_action_id = act_id action, res_phases_completed = [],
                     res_success = False, res_requires_approval = False, res_plan = None,
                     res_execution = None, res_verification = None, res_reflection = None,
                     res_error = None\<rparr>
      in case plan_phase coll w action of
           (Inl exc, a1, w1) \<Rightarrow> handle_exception self exc result0 a1 w1
         | (Inr plan, a1, w1) \<Rightarrow>
             (let result1 = result0\<lparr>res_plan := Some plan,
                                    res_phases_completed := [PHASE_PLANNING]\<rparr>
              in if act_requires_approval a1 \<and> act_approved a1 \<noteq> Some True
                 then (result1\<lparr>res_requires_approval := True\<rparr>, a1\<lparr>act_status := PENDING\<rparr>, w1)
                 else
                   (case execute_phase env self workspace w1 a1 plan of
                      (Inl exc, a2, w2) \<Rightarrow> handle_exception self exc result1 a2 w2
                    | (Inr execution, a2, w2) \<Rightarrow>
                        (let result2 = result1\<lparr>res_execution := Some execution,
                               res_phases_completed :=
                                 res_phases_completed result1 @ [PHASE_EXECUTING]\<rparr>
                         in case verify_phase tools w2 workspace a2 execution of
                              (Inl exc, a3) \<Rightarrow> handle_exception self exc result2 a3 w2
                            | (Inr verification, a3) \<Rightarrow>
                                (let result3 = result2\<lparr>res_verification := Some verification,
                                       res_phases_completed :=
                                         res_phases_completed result2 @ [PHASE_VERIFYING]\<rparr>;
                                     (reflection, a4) = reflect_phase coll a3;
                                     (t, w3) = now w2
                                 in (result3\<lparr>res_reflection := Some reflection,
                                             res_phases_completed :=
                                               res_phases_completed result3 @ [PHASE_REFLECTING],
                                             res_success := True\<rparr>,
                                     a4\<lparr>act_status := COMPLETED, act_completed_at := Some t\<rparr>,
                                     w3))))))"

section \<open>Rate limiter\<close>

text \<open>
  Times are counted in microseconds, the resolution of \<^verbatim>\<open>datetime\<close>; the period is given
  in seconds.  \<open>acquire\<close> takes the reading of the clock at the call, and returns with the
  outcome the limiter as the call leaves it.
\<close>

record SlidingWindowRateLimiter =
  max_requests :: int
  period :: int
  timestamps :: "int list"

definition init_limiter :: "int \<Rightarrow> int \<Rightarrow> SlidingWindowRateLimiter" where
  "init_limiter max_req period_seconds =
     \<lparr>max_requests = max_req, period = period_seconds, timestamps = []\<rparr>"

definition acquire ::
  "SlidingWindowRateLimiter \<Rightarrow> int \<Rightarrow> (exn + unit) \<times> SlidingWindowRateLimiter" where
  "acquire self now_us =
     (let cutoff = now_us - period self * 1000000;
          kept = dropWhile (\<lambda>t. t \<le> cutoff) (timestamps self);
          self1 = self\<lparr>timestamps := kept\<rparr>
      in if int (length kept) \<ge> max_requests self
         then (case kept of
                 [] \<Rightarrow> (Inl (IndexError ''deque index out of range''), self1)
               | oldest # rest \<Rightarrow>
                   (Inl (RateLimitError (max_requests self) (period self) (oldest - cutoff)), self1))
         else (Inr (), self1\<lparr>timestamps := kept @ [now_us]\<rparr>))"

text \<open>A sequence of calls at the given times: the outcomes and the limiter at the end.\<close>

fun acquire_all ::
  "SlidingWindowRateLimiter \<Rightarrow> int list \<Rightarrow> (exn + unit) list \<times> SlidingWindowRateLimiter" where
  "acquire_all self [] = ([], self)"
| "acquire_all self (t # ts) =
     (case acquire self t of
        (r, self') \<Rightarrow> (case acquire_all self' ts of (rs, self'') \<Rightarrow> (r # rs, self'')))"

text \<open>The times of the calls of a sequence that succeed, in the order of the calls.\<close>

fun recorded :: "SlidingWindowRateLimiter \<Rightarrow> int list \<Rightarrow> int list" where
  "recorded self [] = []"
| "recorded self (t # ts) =
     (case acquire self t of
        (Inr ok, self') \<Rightarrow> t # recorded self' ts
      | (Inl exc, self') \<Rightarrow> recorded self' ts)"

section \<open>Sample inputs\<close>

definition eng0 :: DiffEngine where
  "eng0 = \<lparr>workspace_root = ''/ws'', backup_retention_days = 7\<rparr>"

definition world_a :: world where
  "world_a = \<lparr>files = [''/ws/a.py'' \<mapsto> ''x = 1''], clock = 1000\<rparr>"

definition plain_diff :: "DiffOperation \<Rightarrow> string \<Rightarrow> string option \<Rightarrow> string option \<Rightarrow> FileDiff" where
  "plain_diff op fp orig new_c =
     \<lparr>operation = op, file_path = fp, original_content = orig, new_content = new_c,
      unified_diff = None, line_changes = [''additions'' \<mapsto> 0, ''deletions'' \<mapsto> 0],
      applied = False, backup_path = None, checksum_before = None, checksum_after = None,
      applied_at = None\<rparr>"

definition stale_diff :: FileDiff where
  "stale_diff =
     (plain_diff MODIFY ''a.py'' (Some ''x = 0'') (Some ''x = 2''))
       \<lparr>line_changes := [''additions'' \<mapsto> 400, ''deletions'' \<mapsto> 200],
        checksum_before := Some (sha256_hexdigest ''x = 1'' @ ''0'')\<rparr>"

lemmas sample_defs = eng0_def world_a_def plain_diff_def full_path_of_def path_join_def
  exists_def or_empty_def MAX_FILE_SIZE_BYTES_def

definition world_e :: world where
  "world_e = \<lparr>files = [''/ws/e.py'' \<mapsto> ''''], clock = 1000\<rparr>"

definition empty_modify :: FileDiff where
  "empty_modify = create_diff eng0 world_e ''e.py'' (Some '''') MODIFY None []"

definition backup_a :: string where
  "backup_a = ''/ws/.project_core_backups/a.py.1000.d3ecfa.bak''"

definition applied_modify :: FileDiff where
  "applied_modify =
     (plain_diff MODIFY ''a.py'' (Some ''x = 1'') (Some ''x = 2''))
       \<lparr>applied := True, backup_path := Some backup_a\<rparr>"

definition world_modified :: world where
  "world_modified =
     \<lparr>files = [''/ws/a.py'' \<mapsto> ''x = 2'', backup_a \<mapsto> ''x = 1''], clock = 1002\<rparr>"

definition world_backup_lost :: world where
  "world_backup_lost = \<lparr>files = [''/ws/a.py'' \<mapsto> ''x = 2''], clock = 1002\<rparr>"

definition modify_a :: FileDiff where
  "modify_a =
     create_diff eng0 world_a ''a.py'' (Some ''x = 2'') MODIFY None
       [''--- a/a.py'', ''+++ b/a.py'', ''@@ -1 +1 @@'', ''-x = 1'', ''+x = 2'']"

definition create_deep :: FileDiff where
  "create_deep = create_diff eng0 world_a ''new/deep/file.py'' (Some ''pass'') CREATE None []"

definition empty_edit :: FileDiff where
  "empty_edit =
     create_diff eng0 world_e ''e.py'' (Some ''x = 2'') MODIFY None
       [''--- a/e.py'', ''+++ b/e.py'', ''@@ -0,0 +1 @@'', ''+x = 2'']"

text \<open>Applying a diff for real and rolling back what the call returned.\<close>

definition apply_then_rollback_of ::
  "DiffEngine \<Rightarrow> world \<Rightarrow> FileDiff \<Rightarrow> bool \<times> world \<times> FileDiff" where
  "apply_then_rollback_of self w d =
     (case apply_diff self w d False of (r, w1, d1) \<Rightarrow> rollback_diff self w1 d1)"

definition good_diff :: FileDiff where
  "good_diff = create_diff eng0 world_a ''good.py'' (Some ''pass'') CREATE None []"

definition bad_diff :: FileDiff where
  "bad_diff =
     (plain_diff MODIFY ''nonexistent.py'' (Some ''x'') (Some ''y''))
       \<lparr>line_changes := [''additions'' \<mapsto> 1, ''deletions'' \<mapsto> 1]\<rparr>"

definition third_diff :: FileDiff where
  "third_diff = create_diff eng0 world_a ''third.py'' (Some ''pass'') CREATE None []"

definition batch :: "FileDiff list" where
  "batch = [good_diff, bad_diff, third_diff]"


text \<open>
  A generation service that answers every prompt with the same fenced text, from which
  the extraction takes the code, and one that is down.  No prompt fails to build and no
  line of difference is reported.
\<close>

definition fenced_pass :: string where
  "fenced_pass = replicate 3 (CHR 0x60) @ ''python'' @ [CHR 0x0A] @ ''pass'' @ [CHR 0x0A] @
                 replicate 3 (CHR 0x60)"

definition env_ok :: Env where
  "env_ok = \<lparr>prompt_fault = (\<lambda>step original. None),
             llm_generate = (\<lambda>step original. Inr fenced_pass),
             extract_code = (\<lambda>raw language. if raw = fenced_pass then ''pass'' else []),
             unified_diff_lines = (\<lambda>original modified fp. [])\<rparr>"


definition step_of :: "string \<Rightarrow> string \<Rightarrow> string \<Rightarrow> PlanStep" where
  "step_of action fp intent =
     \<lparr>step_action = Some action, step_file_path = Some fp, step_code_intent = Some intent,
      step_description = None, step_dependencies = []\<rparr>"

definition plan_good :: Plan where
  "plan_good = \<lparr>plan_steps = [step_of ''create'' ''good.py'' ''a module''],
                plan_requires_approval = False\<rparr>"

definition plan_clash :: Plan where
  "plan_clash = \<lparr>plan_steps = [step_of ''create'' ''a.py'' ''a module''],
                 plan_requires_approval = False\<rparr>"


text \<open>
  Tools for a workspace with no test of any kind: no test file is found, the checkers
  report no error, and the linter for Python reports one warning.
\<close>

definition tools_quiet :: Tools where
  "tools_quiet =
     \<lparr>rglob_test_files = (\<lambda>workspace. []),
      manifest_has_test_script = (\<lambda>workspace. Inr False),
      run_pytest = (\<lambda>workspace. TestResult0),
      run_npm_test = (\<lambda>workspace. TestResult0),
      check_python_syntax = (\<lambda>full rel. []),
      check_ts_syntax = (\<lambda>full rel. []),
      check_js_syntax = (\<lambda>full rel. Inr []),
      check_json_syntax = (\<lambda>full rel. Inr []),
      ruff_findings = (\<lambda>workspace files. Inr ([], [''a.py:1:6: W291 trailing whitespace''])),
      eslint_findings = (\<lambda>workspace files. Inr ([], [])),
      parse_coverage = (\<lambda>output. None)\<rparr>"

definition modified_a :: ExecResults where
  "modified_a = (initial_results False)\<lparr>er_files_modified := [''a.py'']\<rparr>"


text \<open>
  An action whose recorded diff changed \<^verbatim>\<open>a.py\<close>, a planner that answers with a plan of no
  step, and tools that find a test file and report two failing tests out of five.
\<close>

definition row_a :: DiffRow where
  "row_a = \<lparr>row_file_path = ''a.py'', row_operation = ''modify'',
            row_original_content = Some ''x = 1'', row_new_content = Some ''x = 2'',
            row_unified_diff = ''-x = 1'' @ [CHR 0x0A] @ ''+x = 2'', row_applied = True\<rparr>"

definition action_a :: Action where
  "action_a = \<lparr>act_id = 1, act_plan = None, act_execution_result = None,
               act_verification_result = None, act_reflection = None, act_status = PENDING,
               act_requires_approval = False, act_approved = None, act_error = None,
               act_started_at = None, act_completed_at = None, act_diffs = [row_a]\<rparr>"

definition plan_none :: Plan where
  "plan_none = \<lparr>plan_steps = [], plan_requires_approval = False\<rparr>"

definition coll_none :: Collaborators where
  "coll_none = \<lparr>get_lessons_for_project = None, create_plan = Inr plan_none,
                reflect_on_action = Inr \<lparr>refl_summary = Some ''done'', refl_error = None\<rparr>\<rparr>"

definition two_of_five :: TestResult where
  "two_of_five = \<lparr>tr_tests_run = 5, tr_tests_passed = 3, tr_tests_failed = 2,
                  tr_tests_skipped = 0, tr_output = ''2 failed, 3 passed'',
                  tr_errors = [''2 test(s) failed''], tr_passed = False\<rparr>"

definition tools_failing :: Tools where
  "tools_failing = tools_quiet\<lparr>rglob_test_files := (\<lambda>workspace. [''/ws/tests/test_a.py'']),
                               run_pytest := (\<lambda>workspace. two_of_five)\<rparr>"

section \<open>Validation\<close>

lemma validate_create_exists:
  "operation d = CREATE \<Longrightarrow> exists w (full_path_of self (file_path d)) \<Longrightarrow>
   validate_diff self w d = Inr (False, [CreateExists (file_path d)])"
  by (simp add: validate_diff_def)

lemma validate_missing:
  "operation d \<noteq> CREATE \<Longrightarrow> \<not> exists w (full_path_of self (file_path d)) \<Longrightarrow>
   validate_diff self w d = Inr (False, [NotFound (operation d) (file_path d)])"
  by (cases "operation d") (simp_all add: validate_diff_def)

lemma validate_oversize:
  "length (or_empty (new_content d)) > MAX_FILE_SIZE_BYTES \<Longrightarrow>
   \<exists>ws. validate_diff self w d = Inr (False, ws)"
  by (simp add: validate_diff_def Let_def)

lemma validate_ok:
  "\<not> (operation d = CREATE \<and> exists w (full_path_of self (file_path d))) \<Longrightarrow>
   \<not> (operation d \<noteq> CREATE \<and> \<not> exists w (full_path_of self (file_path d))) \<Longrightarrow>
   length (or_empty (new_content d)) \<le> MAX_FILE_SIZE_BYTES \<Longrightarrow>
   line_changes d ''additions'' = Some a \<Longrightarrow> line_changes d ''deletions'' = Some b \<Longrightarrow>
   validate_diff self w d =
     Inr (True, integrity_warnings self w d @
                (if a + b > LARGE_DIFF_LINES then [LargeChange (a + b) (file_path d)] else []))"
  by (cases "operation d") (auto simp add: validate_diff_def Let_def)

lemma apply_invalid:
  "validate_diff self w d = Inr (False, ws) \<Longrightarrow>
   apply_diff self w d dry = (Inl (ValueError (file_path d) ws), w, d)"
  by (simp add: apply_diff_def)

lemma integrity_mismatch:
  "operation d = MODIFY \<Longrightarrow> checksum_before d = Some cs \<Longrightarrow> cs \<noteq> [] \<Longrightarrow>
   files w (full_path_of self (file_path d)) = Some c \<Longrightarrow> sha256_hexdigest c \<noteq> cs \<Longrightarrow>
   integrity_warnings self w d = [Integrity (file_path d)]"
  by (simp add: integrity_warnings_def truthy_def read_bytes_def)

text \<open>
  Claim C7.  \<open>validate_diff\<close> returns the verdict \<^verbatim>\<open>False\<close> for a create-diff whose
  target exists, for a modify- or delete-diff whose target is absent, and for a diff of any
  operation whose new content is larger than 5 MiB.  It only reads the world, and
  \<open>apply_diff\<close> then raises and leaves the world and the diff as they were.  In every
  other case the verdict is \<^verbatim>\<open>True\<close>; a stale checksum and a change of more than 500
  lines only add a warning each.
\<close>

theorem validate_diff_rules:
  "(operation d1 = CREATE \<and> exists w (full_path_of self (file_path d1)) \<longrightarrow>
      validate_diff self w d1 = Inr (False, [CreateExists (file_path d1)]) \<and>
      apply_diff self w d1 dry = (Inl (ValueError (file_path d1) [CreateExists (file_path d1)]), w, d1))
   \<and> (operation d2 \<noteq> CREATE \<and> \<not> exists w (full_path_of self (file_path d2)) \<longrightarrow>
      validate_diff self w d2 = Inr (False, [NotFound (operation d2) (file_path d2)]) \<and>
      apply_diff self w d2 dry =
        (Inl (ValueError (file_path d2) [NotFound (operation d2) (file_path d2)]), w, d2))
   \<and> (length (or_empty (new_content d3)) > MAX_FILE_SIZE_BYTES \<longrightarrow>
      (\<exists>ws. validate_diff self w d3 = Inr (False, ws) \<and>
            apply_diff self w d3 dry = (Inl (ValueError (file_path d3) ws), w, d3)))
   \<and> (\<not> (operation d4 = CREATE \<and> exists w (full_path_of self (file_path d4))) \<and>
      \<not> (operation d4 \<noteq> CREATE \<and> \<not> exists w (full_path_of self (file_path d4))) \<and>
      length (or_empty (new_content d4)) \<le> MAX_FILE_SIZE_BYTES \<and>
      line_changes d4 ''additions'' = Some a \<and> line_changes d4 ''deletions'' = Some b \<longrightarrow>
      validate_diff self w d4 =
        Inr (True, integrity_warnings self w d4 @
                   (if a + b > 500 then [LargeChange (a + b) (file_path d4)] else [])))
   \<and> (operation d5 = MODIFY \<and> checksum_before d5 = Some cs \<and> cs \<noteq> [] \<and>
      files w (full_path_of self (file_path d5)) = Some c \<and> sha256_hexdigest c \<noteq> cs \<longrightarrow>
      integrity_warnings self w d5 = [Integrity (file_path d5)])"
proof (intro conjI impI)
  assume h: "operation d1 = CREATE \<and> exists w (full_path_of self (file_path d1))"
  then show v: "validate_diff self w d1 = Inr (False, [CreateExists (file_path d1)])"
    by (simp add: validate_create_exists)
  show "apply_diff self w d1 dry = (Inl (ValueError (file_path d1) [CreateExists (file_path d1)]), w, d1)"
    by (rule apply_invalid [OF v])
next
  assume h: "operation d2 \<noteq> CREATE \<and> \<not> exists w (full_path_of self (file_path d2))"
  then show v: "validate_diff self w d2 = Inr (False, [NotFound (operation d2) (file_path d2)])"
    by (simp add: validate_missing)
  show "apply_diff self w d2 dry =
        (Inl (ValueError (file_path d2) [NotFound (operation d2) (file_path d2)]), w, d2)"
    by (rule apply_invalid [OF v])
next
  assume "length (or_empty (new_content d3)) > MAX_FILE_SIZE_BYTES"
  then obtain ws where "validate_diff self w d3 = Inr (False, ws)"
    using validate_oversize by blast
  then show "\<exists>ws. validate_diff self w d3 = Inr (False, ws) \<and>
            apply_diff self w d3 dry = (Inl (ValueError (file_path d3) ws), w, d3)"
    using apply_invalid by blast
next
  assume "\<not> (operation d4 = CREATE \<and> exists w (full_path_of self (file_path d4))) \<and>
      \<not> (operation d4 \<noteq> CREATE \<and> \<not> exists w (full_path_of self (file_path d4))) \<and>
      length (or_empty (new_content d4)) \<le> MAX_FILE_SIZE_BYTES \<and>
      line_changes d4 ''additions'' = Some a \<and> line_changes d4 ''deletions'' = Some b"
  then show "validate_diff self w d4 =
        Inr (True, integrity_warnings self w d4 @
                   (if a + b > 500 then [LargeChange (a + b) (file_path d4)] else []))"
    using validate_ok [of d4 w self a b] by (simp add: LARGE_DIFF_LINES_def)
next
  assume "operation d5 = MODIFY \<and> checksum_before d5 = Some cs \<and> cs \<noteq> [] \<and>
      files w (full_path_of self (file_path d5)) = Some c \<and> sha256_hexdigest c \<noteq> cs"
  then show "integrity_warnings self w d5 = [Integrity (file_path d5)]"
    by (simp add: integrity_mismatch)
qed

theorem validate_diff_rules_witness:
  "validate_diff eng0 world_a (plain_diff CREATE ''a.py'' None (Some ''pass'')) =
     Inr (False, [CreateExists ''a.py''])
   \<and> apply_diff eng0 world_a (plain_diff CREATE ''a.py'' None (Some ''pass'')) False =
     (Inl (ValueError ''a.py'' [CreateExists ''a.py'']), world_a,
      plain_diff CREATE ''a.py'' None (Some ''pass''))
   \<and> validate_diff eng0 world_a (plain_diff DELETE ''b.py'' None None) =
     Inr (False, [NotFound DELETE ''b.py''])
   \<and> (\<exists>ws. validate_diff eng0 world_a
             (plain_diff CREATE ''big.py'' None (Some (replicate 5242881 (CHR ''x'')))) =
           Inr (False, ws))
   \<and> validate_diff eng0 world_a stale_diff =
     Inr (True, [Integrity ''a.py'', LargeChange 600 ''a.py''])"
  using validate_diff_rules [of "plain_diff CREATE ''a.py'' None (Some ''pass'')" world_a eng0
      False "plain_diff DELETE ''b.py'' None None"
      "plain_diff CREATE ''big.py'' None (Some (replicate 5242881 (CHR ''x'')))"
      stale_diff 400 200 stale_diff "sha256_hexdigest ''x = 1'' @ ''0''" "''x = 1''"]
  by (auto simp add: sample_defs stale_diff_def)

section \<open>Checksums\<close>

lemma sha_None: "sha x = None \<longleftrightarrow> x = None \<or> x = Some []"
  by (cases x) (auto simp: sha_def truthy_def)

lemma sha_Some: "s \<noteq> [] \<Longrightarrow> sha (Some s) = Some (sha256_hexdigest s)"
  by (simp add: sha_def truthy_def or_empty_def)

lemma create_diff_after: "checksum_after (create_diff self w fp new_c op orig dl) = sha new_c"
  by (simp add: create_diff_def Let_def split: prod.splits)

lemma create_diff_before:
  "checksum_before (create_diff self w fp new_c op orig dl) =
   sha (original_content (create_diff self w fp new_c op orig dl))"
  by (simp add: create_diff_def Let_def split: prod.splits)

lemma create_diff_original_given:
  "op \<noteq> MODIFY \<or> orig \<noteq> None \<Longrightarrow>
   original_content (create_diff self w fp new_c op orig dl) = orig"
  by (auto simp add: create_diff_def Let_def split: prod.splits)

lemma create_diff_original_read:
  "files w (full_path_of self fp) = Some c \<Longrightarrow>
   original_content (create_diff self w fp new_c MODIFY None dl) = Some (universal_newlines c)"
  by (auto simp add: create_diff_def Let_def read_text_def split: prod.splits)

lemma create_diff_original_absent:
  "files w (full_path_of self fp) = None \<Longrightarrow>
   original_content (create_diff self w fp new_c MODIFY None dl) = None \<and>
   operation (create_diff self w fp new_c MODIFY None dl) = CREATE"
  by (auto simp add: create_diff_def Let_def read_text_def split: prod.splits)

lemma no_integrity: "checksum_before d = None \<Longrightarrow> integrity_warnings self w d = []"
  by (simp add: integrity_warnings_def truthy_def)

lemma validate_no_integrity:
  "checksum_before d = None \<Longrightarrow> validate_diff self w d = Inr (ok, ws) \<Longrightarrow>
   Integrity p \<notin> set ws"
  by (auto simp add: validate_diff_def Let_def no_integrity split: if_splits option.splits)

text \<open>
  Claim C10.  The checksums that \<open>create_diff\<close> stores are \<^verbatim>\<open>None\<close> exactly when the
  content they belong to is \<^verbatim>\<open>None\<close> or empty: the new content for \<open>checksum_after\<close>,
  and for \<open>checksum_before\<close> the original content of the diff, which is the given one or,
  for a modify-diff without one, the text read from the file.  A diff over empty content
  therefore has no checksum, and \<open>validate_diff\<close> makes no integrity comparison for a
  diff whose \<open>checksum_before\<close> is \<^verbatim>\<open>None\<close>: it never reports the integrity warning.
\<close>

theorem create_diff_checksums:
  "(checksum_after (create_diff self w fp new_c op orig dl) = None \<longleftrightarrow>
      new_c = None \<or> new_c = Some [])
   \<and> (checksum_before (create_diff self w fp new_c op orig dl) = None \<longleftrightarrow>
      original_content (create_diff self w fp new_c op orig dl) = None \<or>
      original_content (create_diff self w fp new_c op orig dl) = Some [])
   \<and> (op \<noteq> MODIFY \<or> orig \<noteq> None \<longrightarrow>
      original_content (create_diff self w fp new_c op orig dl) = orig)
   \<and> (op = MODIFY \<and> orig = None \<and> files w (full_path_of self fp) = Some c \<longrightarrow>
      original_content (create_diff self w fp new_c op orig dl) = Some (universal_newlines c))
   \<and> (op = MODIFY \<and> orig = None \<and> files w (full_path_of self fp) = None \<longrightarrow>
      original_content (create_diff self w fp new_c op orig dl) = None)
   \<and> (new_c = Some s \<and> s \<noteq> [] \<longrightarrow>
      checksum_after (create_diff self w fp new_c op orig dl) = Some (sha256_hexdigest s))
   \<and> (checksum_before d = None \<longrightarrow>
      integrity_warnings self w d = [] \<and>
      (\<forall>ok ws. validate_diff self w d = Inr (ok, ws) \<longrightarrow> Integrity (file_path d) \<notin> set ws))"
  by (auto simp add: create_diff_after create_diff_before sha_None sha_Some
      create_diff_original_given create_diff_original_read create_diff_original_absent
      no_integrity validate_no_integrity)

theorem create_diff_checksums_witness:
  "checksum_after empty_modify = None
   \<and> checksum_before empty_modify = None
   \<and> original_content empty_modify = Some ''''
   \<and> integrity_warnings eng0 world_e empty_modify = []
   \<and> checksum_after (create_diff eng0 world_a ''a.py'' (Some ''x = 2'') MODIFY None []) =
       Some (sha256_hexdigest ''x = 2'')
   \<and> original_content (create_diff eng0 world_a ''a.py'' (Some ''x = 2'') MODIFY None []) =
       Some ''x = 1''
   \<and> checksum_before (create_diff eng0 world_a ''a.py'' (Some ''x = 2'') MODIFY None []) \<noteq> None"
  using create_diff_checksums [of eng0 world_e "''e.py''" "Some ''''" MODIFY None "[]" "''''"
      "''x''" empty_modify]
    create_diff_checksums [of eng0 world_a "''a.py''" "Some ''x = 2''" MODIFY None "[]" "''x = 1''"
      "''x = 2''" empty_modify]
  by (simp add: empty_modify_def eng0_def world_e_def world_a_def full_path_of_def path_join_def)

section \<open>Rollback of one diff\<close>

lemma rollback_from_backup:
  "applied d \<Longrightarrow> operation d \<noteq> CREATE \<Longrightarrow> backup_path d = Some b \<Longrightarrow> b \<noteq> [] \<Longrightarrow>
   files w b = Some c \<Longrightarrow> b \<noteq> full_path_of self (file_path d) \<Longrightarrow>
   rollback_diff self w d =
     (True, w\<lparr>files := (files w)(full_path_of self (file_path d) \<mapsto> c)\<rparr>, d\<lparr>applied := False\<rparr>)"
  by (simp add: rollback_diff_def truthy_def or_empty_def restore_backup_def exists_def copy2_def)

lemma rollback_backup_missing:
  "applied d \<Longrightarrow> operation d \<noteq> CREATE \<Longrightarrow> backup_path d = Some b \<Longrightarrow> b \<noteq> [] \<Longrightarrow>
   files w b = None \<Longrightarrow> \<not> is_dir self w b \<Longrightarrow>
   rollback_diff self w d = (True, w, d\<lparr>applied := False\<rparr>)"
  by (simp add: rollback_diff_def truthy_def or_empty_def restore_backup_def exists_def)

lemma rollback_backup_directory:
  "applied d \<Longrightarrow> operation d \<noteq> CREATE \<Longrightarrow> backup_path d = Some b \<Longrightarrow> b \<noteq> [] \<Longrightarrow>
   is_dir self w b \<Longrightarrow>
   rollback_diff self w d = (False, w, d)"
  by (simp add: rollback_diff_def truthy_def or_empty_def restore_backup_def exists_def
      is_dir_def)

lemma rollback_backup_same:
  "applied d \<Longrightarrow> operation d \<noteq> CREATE \<Longrightarrow> backup_path d = Some b \<Longrightarrow> b \<noteq> [] \<Longrightarrow>
   files w b = Some c \<Longrightarrow> b = full_path_of self (file_path d) \<Longrightarrow>
   rollback_diff self w d = (False, w, d)"
  by (simp add: rollback_diff_def truthy_def or_empty_def restore_backup_def exists_def copy2_def)

lemma rollback_from_original:
  "applied d \<Longrightarrow> operation d \<noteq> CREATE \<Longrightarrow> \<not> truthy (backup_path d) \<Longrightarrow>
   original_content d = Some oc \<Longrightarrow>
   rollback_diff self w d =
     (True, write_text w (full_path_of self (file_path d)) oc, d\<lparr>applied := False\<rparr>)"
  by (simp add: rollback_diff_def)

lemma rollback_no_source:
  "applied d \<Longrightarrow> operation d \<noteq> CREATE \<Longrightarrow> \<not> truthy (backup_path d) \<Longrightarrow>
   original_content d = None \<Longrightarrow>
   rollback_diff self w d = (False, w, d)"
  by (simp add: rollback_diff_def)

lemma rollback_failure_unchanged:
  "fst (rollback_diff self w d) = False \<Longrightarrow> rollback_diff self w d = (False, w, d)"
  by (auto simp add: rollback_diff_def Let_def split: if_splits sum.splits option.splits)

text \<open>
  Claim C3.  For an applied modify- or delete-diff whose target is no directory,
  \<open>rollback_diff\<close> follows the claim in four cases: it copies the backup over the target
  where the diff records a backup path and the backup file is there; it writes the stored
  original content where no backup path is recorded; it returns \<^verbatim>\<open>False\<close> where neither is stored; and it returns
  \<^verbatim>\<open>False\<close> where the copy from the recorded backup raises, as for a backup path that is
  a directory or the target itself.  It departs from the claim where a backup path is
  recorded and nothing exists at it: it then changes nothing, does not use the stored
  original content, and still returns \<^verbatim>\<open>True\<close> with the diff marked as not applied.
  Whenever it returns \<^verbatim>\<open>False\<close> the world and the diff are unchanged.
\<close>

theorem rollback_diff_modify_delete:
  "applied d \<and> operation d \<noteq> CREATE \<longrightarrow>
     (backup_path d = Some b \<and> b \<noteq> [] \<and> files w b = Some c \<and>
        b \<noteq> full_path_of self (file_path d) \<and>
        \<not> is_dir self w (full_path_of self (file_path d)) \<longrightarrow>
        rollback_diff self w d =
          (True, w\<lparr>files := (files w)(full_path_of self (file_path d) \<mapsto> c)\<rparr>,
           d\<lparr>applied := False\<rparr>))
     \<and> (\<not> truthy (backup_path d) \<and> original_content d = Some oc \<and>
        \<not> is_dir self w (full_path_of self (file_path d)) \<longrightarrow>
        rollback_diff self w d =
          (True, w\<lparr>files := (files w)(full_path_of self (file_path d) \<mapsto> oc)\<rparr>,
           d\<lparr>applied := False\<rparr>))
     \<and> (\<not> truthy (backup_path d) \<and> original_content d = None \<longrightarrow>
        rollback_diff self w d = (False, w, d))
     \<and> (backup_path d = Some b \<and> b \<noteq> [] \<and>
        (is_dir self w b \<or> (files w b = Some c \<and> b = full_path_of self (file_path d))) \<longrightarrow>
        rollback_diff self w d = (False, w, d))
     \<and> (backup_path d = Some b \<and> b \<noteq> [] \<and> files w b = None \<and> \<not> is_dir self w b \<longrightarrow>
        rollback_diff self w d = (True, w, d\<lparr>applied := False\<rparr>))
     \<and> (fst (rollback_diff self w d) = False \<longrightarrow> rollback_diff self w d = (False, w, d))"
proof (intro impI conjI)
  assume a: "applied d \<and> operation d \<noteq> CREATE"
  {
    assume "backup_path d = Some b \<and> b \<noteq> [] \<and> files w b = Some c \<and>
        b \<noteq> full_path_of self (file_path d) \<and>
        \<not> is_dir self w (full_path_of self (file_path d))"
    with a show "rollback_diff self w d =
          (True, w\<lparr>files := (files w)(full_path_of self (file_path d) \<mapsto> c)\<rparr>,
           d\<lparr>applied := False\<rparr>)"
      using rollback_from_backup [of d b w c self] by blast
  }
  {
    assume "\<not> truthy (backup_path d) \<and> original_content d = Some oc \<and>
        \<not> is_dir self w (full_path_of self (file_path d))"
    with a have "rollback_diff self w d =
        (True, write_text w (full_path_of self (file_path d)) oc, d\<lparr>applied := False\<rparr>)"
      using rollback_from_original [of d oc self w] by blast
    then show "rollback_diff self w d =
          (True, w\<lparr>files := (files w)(full_path_of self (file_path d) \<mapsto> oc)\<rparr>,
           d\<lparr>applied := False\<rparr>)"
      by (simp add: write_text_def)
  }
  {
    assume "\<not> truthy (backup_path d) \<and> original_content d = None"
    with a show "rollback_diff self w d = (False, w, d)"
      using rollback_no_source [of d self w] by blast
  }
  {
    assume "backup_path d = Some b \<and> b \<noteq> [] \<and>
        (is_dir self w b \<or> (files w b = Some c \<and> b = full_path_of self (file_path d)))"
    with a show "rollback_diff self w d = (False, w, d)"
      using rollback_backup_directory [of d b self w] rollback_backup_same [of d b w c self]
      by blast
  }
  {
    assume "backup_path d = Some b \<and> b \<noteq> [] \<and> files w b = None \<and> \<not> is_dir self w b"
    with a show "rollback_diff self w d = (True, w, d\<lparr>applied := False\<rparr>)"
      using rollback_backup_missing [of d b w self] by blast
  }
  {
    assume "fst (rollback_diff self w d) = False"
    then show "rollback_diff self w d = (False, w, d)"
      by (rule rollback_failure_unchanged)
  }
qed

lemma startswith_Cons: "startswith (c # s) (d # p) \<longleftrightarrow> c = d \<and> startswith s p"
  by (simp add: startswith_def)

lemma startswith_Nil: "startswith s [] = True" "startswith [] (d # p) = False"
  by (simp_all add: startswith_def)

lemma backup_lost_facts:
  "files world_backup_lost backup_a = None" "\<not> is_dir eng0 world_backup_lost backup_a"
  "is_dir eng0 world_modified (backup_dir eng0)"
  "\<not> is_dir eng0 world_modified ''/ws/a.py''"
  by (simp_all add: world_backup_lost_def world_modified_def backup_a_def is_dir_def eng0_def
      backup_dir_def path_join_def startswith_Cons startswith_Nil)

theorem rollback_diff_modify_delete_witness:
  "rollback_diff eng0 world_modified applied_modify =
     (True, world_modified\<lparr>files := (files world_modified)(''/ws/a.py'' \<mapsto> ''x = 1'')\<rparr>,
      applied_modify\<lparr>applied := False\<rparr>)
   \<and> fst (rollback_diff eng0 world_modified (applied_modify\<lparr>backup_path := None\<rparr>))
   \<and> \<not> fst (rollback_diff eng0 world_modified
              (applied_modify\<lparr>backup_path := None, original_content := None\<rparr>))
   \<and> \<not> fst (rollback_diff eng0 world_modified
              (applied_modify\<lparr>backup_path := Some (backup_dir eng0)\<rparr>))
   \<and> original_content applied_modify = Some ''x = 1''
   \<and> rollback_diff eng0 world_backup_lost applied_modify =
       (True, world_backup_lost, applied_modify\<lparr>applied := False\<rparr>)
   \<and> files world_backup_lost ''/ws/a.py'' = Some ''x = 2''"
proof -
  note r = rollback_diff_modify_delete
  have f: "applied applied_modify" "operation applied_modify = MODIFY"
    "backup_path applied_modify = Some backup_a" "backup_a \<noteq> []"
    "original_content applied_modify = Some ''x = 1''"
    "full_path_of eng0 (file_path applied_modify) = ''/ws/a.py''"
    "files world_modified backup_a = Some ''x = 1''" "backup_a \<noteq> ''/ws/a.py''"
    "backup_dir eng0 \<noteq> []"
    "files world_backup_lost ''/ws/a.py'' = Some ''x = 2''"
    by (simp_all add: applied_modify_def plain_diff_def backup_a_def eng0_def full_path_of_def
        path_join_def world_modified_def world_backup_lost_def backup_dir_def)
  from r [of applied_modify backup_a world_modified "''x = 1''" eng0 "''x''"]
  have 1: "rollback_diff eng0 world_modified applied_modify =
     (True, world_modified\<lparr>files := (files world_modified)(''/ws/a.py'' \<mapsto> ''x = 1'')\<rparr>,
      applied_modify\<lparr>applied := False\<rparr>)"
    by (simp add: f backup_lost_facts)
  have g2: "applied (applied_modify\<lparr>backup_path := None\<rparr>)"
    "operation (applied_modify\<lparr>backup_path := None\<rparr>) \<noteq> CREATE"
    "\<not> truthy (backup_path (applied_modify\<lparr>backup_path := None\<rparr>))"
    "original_content (applied_modify\<lparr>backup_path := None\<rparr>) = Some ''x = 1''"
    by (simp_all add: applied_modify_def plain_diff_def truthy_def)
  have "full_path_of eng0 (file_path (applied_modify\<lparr>backup_path := None\<rparr>)) = ''/ws/a.py''"
    by (simp add: applied_modify_def plain_diff_def eng0_def full_path_of_def path_join_def)
  then have n2: "\<not> is_dir eng0 world_modified
      (full_path_of eng0 (file_path (applied_modify\<lparr>backup_path := None\<rparr>)))"
    by (simp only: backup_lost_facts not_False_eq_True)
  from r [of "applied_modify\<lparr>backup_path := None\<rparr>" backup_a world_modified "''x = 1''" eng0
      "''x = 1''"] g2 n2
  have "rollback_diff eng0 world_modified (applied_modify\<lparr>backup_path := None\<rparr>) =
      (True, world_modified\<lparr>files := (files world_modified)
         (full_path_of eng0 (file_path (applied_modify\<lparr>backup_path := None\<rparr>)) \<mapsto> ''x = 1'')\<rparr>,
       applied_modify\<lparr>backup_path := None, applied := False\<rparr>)"
    by blast
  then have 2: "fst (rollback_diff eng0 world_modified (applied_modify\<lparr>backup_path := None\<rparr>))"
    by (simp only: fst_conv)
  have g3: "applied (applied_modify\<lparr>backup_path := None, original_content := None\<rparr>)"
    "operation (applied_modify\<lparr>backup_path := None, original_content := None\<rparr>) \<noteq> CREATE"
    "\<not> truthy (backup_path (applied_modify\<lparr>backup_path := None, original_content := None\<rparr>))"
    "original_content (applied_modify\<lparr>backup_path := None, original_content := None\<rparr>) = None"
    by (simp_all add: applied_modify_def plain_diff_def truthy_def)
  from r [of "applied_modify\<lparr>backup_path := None, original_content := None\<rparr>" backup_a
      world_modified "''x = 1''" eng0 "''x = 1''"] g3
  have "rollback_diff eng0 world_modified
        (applied_modify\<lparr>backup_path := None, original_content := None\<rparr>) =
      (False, world_modified, applied_modify\<lparr>backup_path := None, original_content := None\<rparr>)"
    by blast
  then have 3: "\<not> fst (rollback_diff eng0 world_modified
              (applied_modify\<lparr>backup_path := None, original_content := None\<rparr>))"
    by (simp only: fst_conv) simp
  have g: "applied (applied_modify\<lparr>backup_path := Some (backup_dir eng0)\<rparr>)"
    "operation (applied_modify\<lparr>backup_path := Some (backup_dir eng0)\<rparr>) \<noteq> CREATE"
    "backup_path (applied_modify\<lparr>backup_path := Some (backup_dir eng0)\<rparr>) =
       Some (backup_dir eng0)"
    by (simp_all add: f)
  from r [of "applied_modify\<lparr>backup_path := Some (backup_dir eng0)\<rparr>" "backup_dir eng0"
      world_modified "''x = 1''" eng0 "''x = 1''"] g f(9) backup_lost_facts(3)
  have "rollback_diff eng0 world_modified (applied_modify\<lparr>backup_path := Some (backup_dir eng0)\<rparr>) =
      (False, world_modified, applied_modify\<lparr>backup_path := Some (backup_dir eng0)\<rparr>)"
    by blast
  then have 4: "\<not> fst (rollback_diff eng0 world_modified
              (applied_modify\<lparr>backup_path := Some (backup_dir eng0)\<rparr>))"
    by simp
  from r [of applied_modify backup_a world_backup_lost "''x = 1''" eng0 "''x = 1''"]
  have 5: "rollback_diff eng0 world_backup_lost applied_modify =
       (True, world_backup_lost, applied_modify\<lparr>applied := False\<rparr>)"
    by (simp add: f backup_lost_facts)
  show ?thesis
    apply (intro conjI)
          apply (rule 1)
         apply (rule 2)
        apply (rule 3)
       apply (rule 4)
      apply (rule f(5))
     apply (rule 5)
    apply (rule f(10))
    done
qed

section \<open>Apply, then roll back\<close>

lemma path_name_no_slash: "CHR ''/'' \<notin> set (path_name p)"
  using set_takeWhileD [of "CHR ''/''" "\<lambda>c. c \<noteq> CHR ''/''" "rev p"]
  by (auto simp add: path_name_def)

lemma path_name_join: "CHR ''/'' \<notin> set n \<Longrightarrow> path_name (path_join a n) = n"
proof -
  assume n: "CHR ''/'' \<notin> set n"
  have "takeWhile (\<lambda>c. c \<noteq> CHR ''/'') (rev n @ CHR ''/'' # rev a) = rev n"
    using n by (subst takeWhile_append2) auto
  then show ?thesis
    by (simp add: path_name_def path_join_def)
qed

lemma digit_not_slash: "d < 10 \<Longrightarrow> char_of (48 + d :: nat) \<noteq> CHR ''/''"
proof
  assume d: "d < 10" and eq: "char_of (48 + d) = CHR ''/''"
  have "of_char (char_of (48 + d)) = (of_char (CHR ''/'') :: nat)"
    using eq by simp
  then have "(48 + d) mod 256 = 47" by simp
  with d show False by simp
qed

lemma decimal_no_slash: "CHR ''/'' \<notin> set (decimal n)"
proof (induction n rule: decimal.induct)
  case (1 n)
  show ?case
  proof (cases "n < 10")
    case True
    then show ?thesis
      using digit_not_slash [of n] by (subst decimal.simps) auto
  next
    case False
    have "n mod 10 < 10" by simp
    then have "char_of (48 + n mod 10) \<noteq> CHR ''/''"
      by (rule digit_not_slash)
    with False "1.IH" show ?thesis
      by (subst decimal.simps) auto
  qed
qed

lemma hex_digit_not_slash: "n < 16 \<Longrightarrow> hex_digit n \<noteq> CHR ''/''"
proof
  assume n: "n < 16" and eq: "hex_digit n = CHR ''/''"
  have "of_char (hex_digit n) = (of_char (CHR ''/'') :: nat)"
    using eq by simp
  then have "(if n < 10 then (48 + n) mod 256 else (87 + n) mod 256) = 47"
    by (simp add: hex_digit_def split: if_splits)
  with n show False by (simp split: if_splits)
qed

lemma hex_of_bytes_no_slash: "CHR ''/'' \<notin> set (hex_of_bytes bs)"
proof -
  have "CHR ''/'' \<notin> set (hex_byte b)" for b
    using hex_digit_not_slash [of "b div 16 mod 16"] hex_digit_not_slash [of "b mod 16"]
    by (auto simp add: hex_byte_def)
  then show ?thesis
    by (auto simp add: hex_of_bytes_def)
qed

lemma md5_no_slash: "CHR ''/'' \<notin> set (md5_hexdigest s)"
  by (simp add: md5_hexdigest_def Let_def hex_of_bytes_no_slash)

lemma backup_name_no_slash: "CHR ''/'' \<notin> set (backup_name p ts)"
  using path_name_no_slash [of p] decimal_no_slash [of ts] md5_no_slash [of p]
    set_take_subset [of 6 "md5_hexdigest p"]
  by (auto simp add: backup_name_def)

lemma backup_path_fresh: "path_join (backup_dir self) (backup_name p ts) \<noteq> p"
proof
  assume eq: "path_join (backup_dir self) (backup_name p ts) = p"
  have "path_name (path_join (backup_dir self) (backup_name p ts)) = backup_name p ts"
    by (rule path_name_join [OF backup_name_no_slash])
  with eq have "path_name p = backup_name p ts" by simp
  then have "length (path_name p) = length (backup_name p ts)" by simp
  then show False by (simp add: backup_name_def)
qed

lemma validate_True_exists:
  assumes "validate_diff self w d = Inr (True, ws)"
  shows "exists w (full_path_of self (file_path d)) \<longleftrightarrow> operation d \<noteq> CREATE"
  using assms by (cases "operation d") (auto simp add: validate_diff_def Let_def split: if_splits)

lemma apply_create:
  assumes "validate_diff self w d = Inr (True, ws)" "operation d = CREATE"
  shows "apply_diff self w d False =
     (Inr True,
      \<lparr>files = (files w)(full_path_of self (file_path d) \<mapsto> or_empty (new_content d)),
       clock = Suc (clock w)\<rparr>,
      d\<lparr>applied := True, applied_at := Some (decimal (clock w))\<rparr>)"
  using assms by (simp add: apply_diff_def mark_applied_def now_def write_text_def)

lemma apply_modify:
  assumes "validate_diff self w d = Inr (True, ws)" "operation d = MODIFY"
    "files w (full_path_of self (file_path d)) = Some c0"
  shows "apply_diff self w d False =
     (Inr True,
      \<lparr>files = (files w)
         (path_join (backup_dir self) (backup_name (full_path_of self (file_path d)) (clock w))
            \<mapsto> c0,
          full_path_of self (file_path d) \<mapsto> or_empty (new_content d)),
       clock = Suc (Suc (clock w))\<rparr>,
      d\<lparr>backup_path :=
           Some (path_join (backup_dir self)
                   (backup_name (full_path_of self (file_path d)) (clock w))),
        applied := True, applied_at := Some (decimal (Suc (clock w)))\<rparr>)"
  using assms backup_path_fresh [of self "full_path_of self (file_path d)" "clock w"]
  by (auto simp add: apply_diff_def mark_applied_def now_def write_text_def create_backup_def
      exists_def copy2_def Let_def)

lemma apply_delete:
  assumes "validate_diff self w d = Inr (True, ws)" "operation d = DELETE"
    "files w (full_path_of self (file_path d)) = Some c0"
  shows "apply_diff self w d False =
     (Inr True,
      \<lparr>files = (files w)
         (path_join (backup_dir self) (backup_name (full_path_of self (file_path d)) (clock w))
            \<mapsto> c0,
          full_path_of self (file_path d) := None),
       clock = Suc (Suc (clock w))\<rparr>,
      d\<lparr>backup_path :=
           Some (path_join (backup_dir self)
                   (backup_name (full_path_of self (file_path d)) (clock w))),
        applied := True, applied_at := Some (decimal (Suc (clock w)))\<rparr>)"
  using assms backup_path_fresh [of self "full_path_of self (file_path d)" "clock w"]
  by (auto simp add: apply_diff_def mark_applied_def now_def write_text_def create_backup_def
      exists_def copy2_def unlink_def Let_def)

lemma rollback_create:
  assumes "operation d = CREATE" "applied d" "files wa (full_path_of self (file_path d)) = Some c"
  shows "rollback_diff self wa d =
     (True, wa\<lparr>files := (files wa)(full_path_of self (file_path d) := None)\<rparr>,
      d\<lparr>applied := False\<rparr>)"
  using assms by (simp add: rollback_diff_def exists_def unlink_def)

lemma rollback_backup:
  assumes "applied d" "operation d \<noteq> CREATE" "backup_path d = Some b" "b \<noteq> []"
    "files wa b = Some c" "b \<noteq> full_path_of self (file_path d)"
  shows "rollback_diff self wa d =
     (True, wa\<lparr>files := (files wa)(full_path_of self (file_path d) \<mapsto> c)\<rparr>, d\<lparr>applied := False\<rparr>)"
  using assms
  by (simp add: rollback_diff_def truthy_def or_empty_def restore_backup_def exists_def copy2_def)

lemma path_join_nonempty: "path_join a b \<noteq> []"
  by (simp add: path_join_def)

lemma apply_rollback_create:
  assumes v: "validate_diff self w d = Inr (True, ws)" and op: "operation d = CREATE"
  shows "\<exists>w1 d1 w2.
        apply_diff self w d False = (Inr True, w1, d1) \<and> applied d1 \<and>
        rollback_diff self w1 d1 = (True, w2, d1\<lparr>applied := False\<rparr>) \<and>
        files w (full_path_of self (file_path d)) = None \<and>
        files w1 (full_path_of self (file_path d)) = Some (or_empty (new_content d)) \<and>
        files w2 = files w"
proof -
  let ?p = "full_path_of self (file_path d)"
  from v op have absent: "files w ?p = None"
    using validate_True_exists [OF v] by (simp add: exists_def)
  let ?d1 = "d\<lparr>applied := True, applied_at := Some (decimal (clock w))\<rparr>"
  let ?w1 = "\<lparr>files = (files w)(?p \<mapsto> or_empty (new_content d)), clock = Suc (clock w)\<rparr>"
  let ?w2 = "\<lparr>files = files w, clock = Suc (clock w)\<rparr>"
  have a: "apply_diff self w d False = (Inr True, ?w1, ?d1)"
    by (rule apply_create [OF v op])
  have r: "rollback_diff self ?w1 ?d1 = (True, ?w2, ?d1\<lparr>applied := False\<rparr>)"
    using rollback_create [where d = ?d1 and self = self and wa = ?w1
        and c = "or_empty (new_content d)"] op absent
    by (simp add: fun_upd_idem)
  show ?thesis
    apply (rule exI [of _ ?w1], rule exI [of _ ?d1], rule exI [of _ ?w2])
    apply (simp only: a r absent)
    apply simp
    done
qed

lemma apply_rollback_backup:
  assumes v: "validate_diff self w d = Inr (True, ws)" and op: "operation d \<noteq> CREATE"
  shows "\<exists>w1 d1 w2 c0.
        apply_diff self w d False = (Inr True, w1, d1) \<and> applied d1 \<and>
        rollback_diff self w1 d1 = (True, w2, d1\<lparr>applied := False\<rparr>) \<and>
        files w (full_path_of self (file_path d)) = Some c0 \<and>
        files w1 (full_path_of self (file_path d)) =
          (if operation d = MODIFY then Some (or_empty (new_content d)) else None) \<and>
        files w2 (full_path_of self (file_path d)) = Some c0 \<and>
        (\<forall>q. q \<noteq> path_join (backup_dir self)
                     (backup_name (full_path_of self (file_path d)) (clock w)) \<longrightarrow>
             files w2 q = files w q) \<and>
        checksum_before d1 = checksum_before d \<and> original_content d1 = original_content d"
proof -
  let ?p = "full_path_of self (file_path d)"
  let ?bp = "path_join (backup_dir self) (backup_name ?p (clock w))"
  from v op obtain c0 where c0: "files w ?p = Some c0"
    using validate_True_exists [OF v] by (auto simp add: exists_def)
  let ?d1 = "d\<lparr>backup_path := Some ?bp, applied := True,
                applied_at := Some (decimal (Suc (clock w)))\<rparr>"
  let ?x = "if operation d = MODIFY then Some (or_empty (new_content d)) else None"
  let ?w1 = "\<lparr>files = (files w)(?bp \<mapsto> c0, ?p := ?x), clock = Suc (Suc (clock w))\<rparr>"
  let ?w2 = "\<lparr>files = (files w)(?bp \<mapsto> c0, ?p \<mapsto> c0), clock = Suc (Suc (clock w))\<rparr>"
  have fresh: "?bp \<noteq> ?p" by (rule backup_path_fresh)
  have a: "apply_diff self w d False = (Inr True, ?w1, ?d1)"
  proof (cases "operation d")
    case CREATE
    with op show ?thesis by simp
  next
    case MODIFY
    then show ?thesis using apply_modify [OF v MODIFY c0] by simp
  next
    case DELETE
    then show ?thesis using apply_delete [OF v DELETE c0] by simp
  qed
  have r: "rollback_diff self ?w1 ?d1 = (True, ?w2, ?d1\<lparr>applied := False\<rparr>)"
    using rollback_backup [where d = ?d1 and b = ?bp and wa = ?w1 and c = c0 and self = self]
      op fresh path_join_nonempty [of "backup_dir self"]
    by simp
  have others: "\<forall>q. q \<noteq> ?bp \<longrightarrow> files ?w2 q = files w q"
    using c0 by simp
  show ?thesis
    apply (rule exI [of _ ?w1], rule exI [of _ ?d1], rule exI [of _ ?w2], rule exI [of _ c0])
    apply (simp only: a r)
    using fresh c0 apply simp
    done
qed

text \<open>
  Claim C5, as amended.  A diff that passes validation is applied, and rolling it back
  then succeeds.  For a create-diff the target was absent, holds the new content after the
  apply, and after the rollback every file is as it was before.  For a modify-diff the
  target holds the new content after the apply and its exact former content after the
  rollback, and every other file but the new backup is as before; the SHA-256 of that
  content is the stored \<open>checksum_before\<close> when the diff's original content is this
  content, is not empty, and the checksum was taken from it.
\<close>

theorem apply_then_rollback:
  "validate_diff self w d = Inr (True, ws) \<longrightarrow>
     (\<exists>w1 d1 w2.
        apply_diff self w d False = (Inr True, w1, d1) \<and> applied d1 \<and>
        rollback_diff self w1 d1 = (True, w2, d1\<lparr>applied := False\<rparr>) \<and>
        (operation d = CREATE \<longrightarrow>
           files w (full_path_of self (file_path d)) = None \<and>
           files w1 (full_path_of self (file_path d)) = Some (or_empty (new_content d)) \<and>
           files w2 = files w) \<and>
        (operation d = MODIFY \<longrightarrow>
           files w (full_path_of self (file_path d)) \<noteq> None \<and>
           files w1 (full_path_of self (file_path d)) = Some (or_empty (new_content d)) \<and>
           files w2 (full_path_of self (file_path d)) =
             files w (full_path_of self (file_path d)) \<and>
           (\<forall>q. q \<noteq> path_join (backup_dir self)
                        (backup_name (full_path_of self (file_path d)) (clock w)) \<longrightarrow>
                files w2 q = files w q) \<and>
           (\<forall>c0. files w (full_path_of self (file_path d)) = Some c0 \<and>
                 original_content d = Some c0 \<and> c0 \<noteq> [] \<and>
                 checksum_before d = sha (original_content d) \<longrightarrow>
                 checksum_before d1 = Some (sha256_hexdigest c0))))"
proof
  assume v: "validate_diff self w d = Inr (True, ws)"
  let ?p = "full_path_of self (file_path d)"
  show "\<exists>w1 d1 w2.
        apply_diff self w d False = (Inr True, w1, d1) \<and> applied d1 \<and>
        rollback_diff self w1 d1 = (True, w2, d1\<lparr>applied := False\<rparr>) \<and>
        (operation d = CREATE \<longrightarrow>
           files w ?p = None \<and> files w1 ?p = Some (or_empty (new_content d)) \<and>
           files w2 = files w) \<and>
        (operation d = MODIFY \<longrightarrow>
           files w ?p \<noteq> None \<and>
           files w1 ?p = Some (or_empty (new_content d)) \<and>
           files w2 ?p = files w ?p \<and>
           (\<forall>q. q \<noteq> path_join (backup_dir self) (backup_name ?p (clock w)) \<longrightarrow>
                files w2 q = files w q) \<and>
           (\<forall>c0. files w ?p = Some c0 \<and>
                 original_content d = Some c0 \<and> c0 \<noteq> [] \<and>
                 checksum_before d = sha (original_content d) \<longrightarrow>
                 checksum_before d1 = Some (sha256_hexdigest c0)))"
  proof (cases "operation d = CREATE")
    case True
    from apply_rollback_create [OF v True] obtain w1 d1 w2 where
      h: "apply_diff self w d False = (Inr True, w1, d1)" "applied d1"
         "rollback_diff self w1 d1 = (True, w2, d1\<lparr>applied := False\<rparr>)"
         "files w ?p = None" "files w1 ?p = Some (or_empty (new_content d))"
         "files w2 = files w"
      by blast
    show ?thesis
      apply (rule exI [of _ w1], rule exI [of _ d1], rule exI [of _ w2])
      using h True apply simp
      done
  next
    case False
    from apply_rollback_backup [OF v False] obtain w1 d1 w2 c0 where
      h: "apply_diff self w d False = (Inr True, w1, d1)" "applied d1"
         "rollback_diff self w1 d1 = (True, w2, d1\<lparr>applied := False\<rparr>)"
         "files w ?p = Some c0"
         "files w1 ?p = (if operation d = MODIFY then Some (or_empty (new_content d)) else None)"
         "files w2 ?p = Some c0"
         "\<forall>q. q \<noteq> path_join (backup_dir self) (backup_name ?p (clock w)) \<longrightarrow>
             files w2 q = files w q"
         "checksum_before d1 = checksum_before d" "original_content d1 = original_content d"
      by blast
    have cs: "original_content d = Some c0 \<and> c0 \<noteq> [] \<and>
                 checksum_before d = sha (original_content d) \<longrightarrow>
                 checksum_before d1 = Some (sha256_hexdigest c0)"
      using h(8) by (auto simp add: sha_def truthy_def or_empty_def)
    show ?thesis
      apply (rule exI [of _ w1], rule exI [of _ d1], rule exI [of _ w2])
      using h(1-7) False cs apply simp
      done
  qed
qed

lemma modify_a_fields:
  "operation modify_a = MODIFY" "file_path modify_a = ''a.py''"
  "original_content modify_a = Some ''x = 1''" "new_content modify_a = Some ''x = 2''"
  "checksum_before modify_a = Some (sha256_hexdigest ''x = 1'')"
  "line_changes modify_a ''additions'' = Some 1" "line_changes modify_a ''deletions'' = Some 1"
  by (simp_all add: modify_a_def create_diff_def eng0_def world_a_def full_path_of_def
      path_join_def read_text_def sha_def truthy_def or_empty_def count_marked_def startswith_def)

lemma modify_a_valid: "validate_diff eng0 world_a modify_a = Inr (True, [])"
  by (simp add: validate_diff_def integrity_warnings_def modify_a_fields eng0_def world_a_def
      full_path_of_def path_join_def exists_def read_bytes_def truthy_def or_empty_def
      MAX_FILE_SIZE_BYTES_def LARGE_DIFF_LINES_def)

lemma create_deep_fields:
  "operation create_deep = CREATE" "file_path create_deep = ''new/deep/file.py''"
  "new_content create_deep = Some ''pass''"
  by (simp_all add: create_deep_def create_diff_def)

lemma create_deep_valid: "validate_diff eng0 world_a create_deep = Inr (True, [])"
  by (simp add: validate_diff_def integrity_warnings_def create_deep_def create_diff_def
      eng0_def world_a_def full_path_of_def path_join_def exists_def truthy_def or_empty_def
      sha_def MAX_FILE_SIZE_BYTES_def LARGE_DIFF_LINES_def splitlines_def)

theorem apply_then_rollback_witness:
  "validate_diff eng0 world_a modify_a = Inr (True, [])
   \<and> fst (apply_diff eng0 world_a modify_a False) = Inr True
   \<and> files (fst (snd (apply_diff eng0 world_a modify_a False))) ''/ws/a.py'' = Some ''x = 2''
   \<and> fst (apply_then_rollback_of eng0 world_a modify_a)
   \<and> files (fst (snd (apply_then_rollback_of eng0 world_a modify_a))) ''/ws/a.py'' = Some ''x = 1''
   \<and> checksum_before (snd (snd (apply_diff eng0 world_a modify_a False))) =
       Some (sha256_hexdigest ''x = 1'')
   \<and> validate_diff eng0 world_a create_deep = Inr (True, [])
   \<and> files (fst (snd (apply_diff eng0 world_a create_deep False))) ''/ws/new/deep/file.py'' =
       Some ''pass''
   \<and> fst (apply_then_rollback_of eng0 world_a create_deep)
   \<and> files (fst (snd (apply_then_rollback_of eng0 world_a create_deep))) = files world_a"
proof -
  from apply_then_rollback [of eng0 world_a modify_a "[]"] modify_a_valid
  obtain w1 d1 w2 where
    m: "apply_diff eng0 world_a modify_a False = (Inr True, w1, d1)"
       "rollback_diff eng0 w1 d1 = (True, w2, d1\<lparr>applied := False\<rparr>)"
       "files w1 (full_path_of eng0 ''a.py'') = Some ''x = 2''"
       "files w2 (full_path_of eng0 ''a.py'') = files world_a (full_path_of eng0 ''a.py'')"
       "checksum_before d1 = Some (sha256_hexdigest ''x = 1'')"
    by (auto simp add: modify_a_fields or_empty_def sha_def truthy_def world_a_def eng0_def
        full_path_of_def path_join_def)
  from apply_then_rollback [of eng0 world_a create_deep "[]"] create_deep_valid
  obtain v1 e1 v2 where
    c: "apply_diff eng0 world_a create_deep False = (Inr True, v1, e1)"
       "rollback_diff eng0 v1 e1 = (True, v2, e1\<lparr>applied := False\<rparr>)"
       "files v1 (full_path_of eng0 ''new/deep/file.py'') = Some ''pass''"
       "files v2 = files world_a"
    by (auto simp add: create_deep_fields or_empty_def)
  from m c modify_a_valid create_deep_valid show ?thesis
    by (simp add: apply_then_rollback_of_def world_a_def eng0_def full_path_of_def
        path_join_def)
qed

text \<open>
  The claim as first stated fails at an empty file: it is restored, but the diff stores no
  checksum to compare its digest with.
\<close>

theorem apply_then_rollback_checksum_counterexample:
  "validate_diff eng0 world_e empty_edit = Inr (True, [])
   \<and> fst (apply_diff eng0 world_e empty_edit False) = Inr True
   \<and> fst (apply_then_rollback_of eng0 world_e empty_edit)
   \<and> files (fst (snd (apply_then_rollback_of eng0 world_e empty_edit))) ''/ws/e.py'' = Some ''''
   \<and> checksum_before (snd (snd (apply_then_rollback_of eng0 world_e empty_edit))) = None
   \<and> Some (sha256_hexdigest '''') \<noteq>
       checksum_before (snd (snd (apply_then_rollback_of eng0 world_e empty_edit)))"
proof -
  have f: "operation empty_edit = MODIFY" "file_path empty_edit = ''e.py''"
    "original_content empty_edit = Some ''''" "checksum_before empty_edit = None"
    by (simp_all add: empty_edit_def create_diff_def eng0_def world_e_def full_path_of_def
        path_join_def read_text_def sha_def truthy_def)
  have v: "validate_diff eng0 world_e empty_edit = Inr (True, [])"
    by (simp add: validate_diff_def integrity_warnings_def f empty_edit_def create_diff_def
        eng0_def world_e_def full_path_of_def path_join_def exists_def read_text_def truthy_def
        or_empty_def MAX_FILE_SIZE_BYTES_def LARGE_DIFF_LINES_def count_marked_def
        startswith_def sha_def)
  from apply_rollback_backup [OF v] f obtain w1 d1 w2 c0 where
    h: "apply_diff eng0 world_e empty_edit False = (Inr True, w1, d1)"
       "rollback_diff eng0 w1 d1 = (True, w2, d1\<lparr>applied := False\<rparr>)"
       "files world_e (full_path_of eng0 ''e.py'') = Some c0"
       "files w2 (full_path_of eng0 ''e.py'') = Some c0"
       "checksum_before d1 = None"
    by auto
  from h(3) have "c0 = ''''"
    by (simp add: world_e_def eng0_def full_path_of_def path_join_def)
  with h v show ?thesis
    by (simp add: apply_then_rollback_of_def eng0_def full_path_of_def path_join_def)
qed

section \<open>Batches\<close>

lemma rollback_each_length:
  "rollback_each self w ds rb fl = (a, b, w', ds') \<Longrightarrow> length ds' = length ds"
  by (induction ds arbitrary: w rb fl a b w' ds') (auto split: prod.splits)

lemma rollback_diffs_length:
  "rollback_diffs self w ds = (r, w', ds') \<Longrightarrow> length ds' = length ds"
  by (auto simp add: rollback_diffs_def split: prod.splits dest: rollback_each_length)

lemma map_nth_prefix: "map (\<lambda>i. (xs @ ys) ! i) [0..<length xs] = xs"
  by (rule nth_equalityI) (auto simp add: nth_append)

lemma write_back_gen:
  "length objs = length xs \<Longrightarrow>
   fold (\<lambda>(i, d) ds. ds[i := d]) (zip [length pre..<length pre + length xs] objs)
     (pre @ xs @ ys) = pre @ objs @ ys"
proof (induction objs xs arbitrary: pre rule: list_induct2)
  case Nil
  then show ?case by simp
next
  case (Cons o' os x xs)
  have ih: "fold (\<lambda>(i, d) ds. ds[i := d])
          (zip [length (pre @ [o'])..<length (pre @ [o']) + length xs] os)
          ((pre @ [o']) @ xs @ ys) = (pre @ [o']) @ os @ ys"
    by (rule Cons.IH)
  have e: "[length pre..<length pre + length (x # xs)] =
           length pre # [length (pre @ [o'])..<length (pre @ [o']) + length xs]"
    by (subst upt_rec) simp
  have u: "(pre @ x # xs @ ys)[length pre := o'] = (pre @ [o']) @ xs @ ys"
    by simp
  have "fold (\<lambda>(i, d) ds. ds[i := d]) (zip [length pre..<length pre + length (x # xs)] (o' # os))
          (pre @ (x # xs) @ ys) =
        fold (\<lambda>(i, d) ds. ds[i := d])
          (zip [length (pre @ [o'])..<length (pre @ [o']) + length xs] os)
          ((pre @ x # xs @ ys)[length pre := o'])"
    by (simp only: e zip_Cons_Cons fold_Cons comp_apply case_prod_conv append_Cons)
  also have "\<dots> = (pre @ [o']) @ os @ ys"
    by (simp only: u ih)
  finally show ?case by simp
qed

lemma write_back_prefix:
  "length objs = length xs \<Longrightarrow> write_back [0..<length xs] objs (xs @ ys) = objs @ ys"
  using write_back_gen [of objs xs "[]" ys] by (simp add: write_back_def)

lemma apply_loop_stop:
  assumes "apply_seq self dry w (take k rest) = Some (w1, ds1)"
    and "k < length rest"
    and "apply_diff self w1 (rest ! k) dry = (Inl e, w2, dk)"
    and "rollback_diffs self w2 (done @ ds1) = (rb, w3, ds3)"
  shows "apply_loop self dry True done rest [0..<length done] result w =
     (result\<lparr>ar_applied := ar_applied result + int k - rb_rolled_back rb,
             ar_failed := ar_failed result + 1,
             ar_errors := ar_errors result @ [(length done + k, file_path (rest ! k), e)]\<rparr>,
      w3, ds3 @ dk # drop (Suc k) rest)"
  using assms
proof (induction k arbitrary: "done" rest result w ds1)
  case 0
  then obtain d rest' where rest: "rest = d # rest'"
    by (cases rest) auto
  from 0 rest have w1: "w1 = w" "ds1 = []" and fail: "apply_diff self w d dry = (Inl e, w2, dk)"
    by auto
  from 0 w1 have rb: "rollback_diffs self w2 done = (rb, w3, ds3)"
    by simp
  have len: "length ds3 = length done"
    using rollback_diffs_length [OF rb] .
  have m: "map (\<lambda>i. (done @ [dk] @ rest') ! i) [0..<length done] = done"
    by (rule map_nth_prefix)
  have wb: "write_back [0..<length done] ds3 (done @ [dk] @ rest') = ds3 @ [dk] @ rest'"
    using write_back_prefix [OF len] by simp
  show ?case
    unfolding rest apply_loop.simps fail
    by (simp only: Let_def m rb wb prod.case sum.case if_True)
       (simp add: rest)
next
  case (Suc k)
  then obtain d rest' where rest: "rest = d # rest'"
    by (cases rest) auto
  from Suc.prems(1) rest obtain ok w' d' ds1' where
    ok: "apply_diff self w d dry = (Inr ok, w', d')" and
    seq: "apply_seq self dry w' (take k rest') = Some (w1, ds1')" and
    ds1: "ds1 = d' # ds1'"
    by (auto split: prod.splits sum.splits option.splits)
  have k: "k < length rest'"
    using Suc.prems(2) rest by simp
  have fail: "apply_diff self w1 (rest' ! k) dry = (Inl e, w2, dk)"
    using Suc.prems(3) rest by simp
  have rb: "rollback_diffs self w2 ((done @ [d']) @ ds1') = (rb, w3, ds3)"
    using Suc.prems(4) ds1 by simp
  have ih: "apply_loop self dry True (done @ [d']) rest' [0..<length (done @ [d'])]
              (result\<lparr>ar_applied := ar_applied result + 1\<rparr>) w' =
     ((result\<lparr>ar_applied := ar_applied result + 1\<rparr>)
        \<lparr>ar_applied := ar_applied (result\<lparr>ar_applied := ar_applied result + 1\<rparr>) + int k
                         - rb_rolled_back rb,
         ar_failed := ar_failed (result\<lparr>ar_applied := ar_applied result + 1\<rparr>) + 1,
         ar_errors := ar_errors (result\<lparr>ar_applied := ar_applied result + 1\<rparr>) @
                        [(length (done @ [d']) + k, file_path (rest' ! k), e)]\<rparr>,
      w3, ds3 @ dk # drop (Suc k) rest')"
    by (rule Suc.IH [OF seq k fail rb])
  have idx: "[0..<length done] @ [length done] = [0..<length (done @ [d'])]"
    by simp
  show ?case
    unfolding rest apply_loop.simps ok
    by (simp only: prod.case sum.case idx ih) simp
qed

lemma rollback_each_acc:
  "rollback_each self w ds rb fl =
     (case rollback_each self w ds 0 0 of (a, b, w', ds') \<Rightarrow> (rb + a, fl + b, w', ds'))"
proof (induction ds arbitrary: w rb fl)
  case Nil
  show ?case by simp
next
  case (Cons d ds)
  obtain ok w' d' where r: "rollback_diff self w d = (ok, w', d')"
    by (cases "rollback_diff self w d") auto
  obtain a b w'' ds' where e: "rollback_each self w' ds 0 0 = (a, b, w'', ds')"
    by (cases "rollback_each self w' ds 0 0") auto
  have 1: "rollback_each self w' ds x y = (x + a, y + b, w'', ds')" for x y
    using Cons.IH [of w' x y] e by simp
  show ?case
    by (simp add: r 1)
qed

lemma rollback_diffs_snoc:
  "rollback_diffs self w (xs @ [x]) =
     (case rollback_diff self w x of
        (ok, w', x') \<Rightarrow>
          (case rollback_diffs self w' xs of
             (r, w'', xs') \<Rightarrow>
               (\<lparr>rb_total = rb_total r + 1,
                 rb_rolled_back = rb_rolled_back r + (if ok then 1 else 0),
                 rb_failed = rb_failed r + (if ok then 0 else 1)\<rparr>, w'', xs' @ [x'])))"
proof -
  obtain ok w' x' where r: "rollback_diff self w x = (ok, w', x')"
    by (cases "rollback_diff self w x") auto
  obtain a b w'' ds' where e: "rollback_each self w' (rev xs) 0 0 = (a, b, w'', ds')"
    by (cases "rollback_each self w' (rev xs) 0 0") auto
  have 1: "rollback_each self w' (rev xs) y z = (y + a, z + b, w'', ds')" for y z
    using rollback_each_acc [of self w' "rev xs" y z] e by simp
  show ?thesis
    by (simp add: rollback_diffs_def r e 1)
qed

lemma rollback_diffs_Nil:
  "rollback_diffs self w [] = (\<lparr>rb_total = 0, rb_rolled_back = 0, rb_failed = 0\<rparr>, w, [])"
  by (simp add: rollback_diffs_def)

text \<open>
  Claim C4.  Let the diffs before position \<open>k\<close> be applied one after the other, and let
  the diff at position \<open>k\<close> raise.  With \<open>stop_on_error\<close> the batch then rolls back the
  diffs applied so far and returns: the diffs after position \<open>k\<close> come back untouched and
  the world is the one the rollback left, one failure is counted with the error of
  position \<open>k\<close>, and the applied count is \<open>k\<close> less the number rolled back.  The rollback
  takes the last diff of its list first.
\<close>

theorem apply_diffs_stop_on_error:
  "(apply_seq self dry w (take k ds) = Some (w1, ds1) \<and> k < length ds \<and>
    apply_diff self w1 (ds ! k) dry = (Inl e, w2, dk) \<and>
    rollback_diffs self w2 ds1 = (rb, w3, ds3) \<longrightarrow>
      apply_diffs self w ds dry True =
        (\<lparr>ar_total = int (length ds), ar_applied = int k - rb_rolled_back rb, ar_failed = 1,
          ar_skipped = 0, ar_errors = [(k, file_path (ds ! k), e)]\<rparr>,
         w3, ds3 @ dk # drop (Suc k) ds))
   \<and> rollback_diffs self w (xs @ [x]) =
       (case rollback_diff self w x of
          (ok, w', x') \<Rightarrow>
            (case rollback_diffs self w' xs of
               (r, w'', xs') \<Rightarrow>
                 (\<lparr>rb_total = rb_total r + 1,
                   rb_rolled_back = rb_rolled_back r + (if ok then 1 else 0),
                   rb_failed = rb_failed r + (if ok then 0 else 1)\<rparr>, w'', xs' @ [x'])))
   \<and> rollback_diffs self w [] = (\<lparr>rb_total = 0, rb_rolled_back = 0, rb_failed = 0\<rparr>, w, [])"
proof (intro conjI impI)
  assume h: "apply_seq self dry w (take k ds) = Some (w1, ds1) \<and> k < length ds \<and>
    apply_diff self w1 (ds ! k) dry = (Inl e, w2, dk) \<and>
    rollback_diffs self w2 ds1 = (rb, w3, ds3)"
  then have rb: "rollback_diffs self w2 ([] @ ds1) = (rb, w3, ds3)"
    by simp
  from h have h1: "apply_seq self dry w (take k ds) = Some (w1, ds1)" by blast
  from h have h2: "k < length ds" by blast
  from h have h3: "apply_diff self w1 (ds ! k) dry = (Inl e, w2, dk)" by blast
  have "apply_loop self dry True [] ds [0..<length ([] :: FileDiff list)]
      \<lparr>ar_total = int (length ds), ar_applied = 0, ar_failed = 0, ar_skipped = 0,
       ar_errors = []\<rparr> w =
     (\<lparr>ar_total = int (length ds), ar_applied = 0, ar_failed = 0, ar_skipped = 0,
        ar_errors = []\<rparr>
       \<lparr>ar_applied := ar_applied \<lparr>ar_total = int (length ds), ar_applied = 0, ar_failed = 0,
           ar_skipped = 0, ar_errors = []\<rparr> + int k - rb_rolled_back rb,
        ar_failed := ar_failed \<lparr>ar_total = int (length ds), ar_applied = 0, ar_failed = 0,
           ar_skipped = 0, ar_errors = []\<rparr> + 1,
        ar_errors := ar_errors \<lparr>ar_total = int (length ds), ar_applied = 0, ar_failed = 0,
           ar_skipped = 0, ar_errors = []\<rparr> @
           [(length ([] :: FileDiff list) + k, file_path (ds ! k), e)]\<rparr>,
      w3, ds3 @ dk # drop (Suc k) ds)"
    by (rule apply_loop_stop [OF h1 h2 h3 rb])
  then show "apply_diffs self w ds dry True =
        (\<lparr>ar_total = int (length ds), ar_applied = int k - rb_rolled_back rb, ar_failed = 1,
          ar_skipped = 0, ar_errors = [(k, file_path (ds ! k), e)]\<rparr>,
         w3, ds3 @ dk # drop (Suc k) ds)"
    by (simp add: apply_diffs_def)
next
  show "rollback_diffs self w (xs @ [x]) =
       (case rollback_diff self w x of
          (ok, w', x') \<Rightarrow>
            (case rollback_diffs self w' xs of
               (r, w'', xs') \<Rightarrow>
                 (\<lparr>rb_total = rb_total r + 1,
                   rb_rolled_back = rb_rolled_back r + (if ok then 1 else 0),
                   rb_failed = rb_failed r + (if ok then 0 else 1)\<rparr>, w'', xs' @ [x'])))"
    by (rule rollback_diffs_snoc)
next
  show "rollback_diffs self w [] = (\<lparr>rb_total = 0, rb_rolled_back = 0, rb_failed = 0\<rparr>, w, [])"
    by (rule rollback_diffs_Nil)
qed

lemma good_diff_valid: "validate_diff eng0 world_a good_diff = Inr (True, [])"
  by (simp add: validate_diff_def integrity_warnings_def good_diff_def create_diff_def
      eng0_def world_a_def full_path_of_def path_join_def exists_def truthy_def or_empty_def
      sha_def MAX_FILE_SIZE_BYTES_def LARGE_DIFF_LINES_def splitlines_def)

lemma good_diff_fields:
  "operation good_diff = CREATE" "file_path good_diff = ''good.py''"
  "new_content good_diff = Some ''pass''" "\<not> applied good_diff"
  by (simp_all add: good_diff_def create_diff_def)

theorem apply_diffs_stop_on_error_witness:
  "fst (apply_diffs eng0 world_a batch False True) =
     \<lparr>ar_total = 3, ar_applied = 0, ar_failed = 1, ar_skipped = 0,
      ar_errors = [(1, ''nonexistent.py'',
                    ValueError ''nonexistent.py'' [NotFound MODIFY ''nonexistent.py''])]\<rparr>
   \<and> files (fst (snd (apply_diffs eng0 world_a batch False True))) = files world_a
   \<and> snd (snd (apply_diffs eng0 world_a batch False True)) =
       [good_diff\<lparr>applied_at := Some (decimal 1000)\<rparr>, bad_diff, third_diff]"
proof -
  let ?w1 = "\<lparr>files = (files world_a)(''/ws/good.py'' \<mapsto> ''pass''), clock = 1001\<rparr>"
  let ?g1 = "good_diff\<lparr>applied := True, applied_at := Some (decimal 1000)\<rparr>"
  let ?w3 = "\<lparr>files = files world_a, clock = 1001\<rparr>"
  let ?e = "ValueError ''nonexistent.py'' [NotFound MODIFY ''nonexistent.py'']"
  have a: "apply_diff eng0 world_a good_diff False = (Inr True, ?w1, ?g1)"
    using apply_create [OF good_diff_valid good_diff_fields(1)]
    by (simp add: good_diff_fields or_empty_def eng0_def full_path_of_def path_join_def
        world_a_def)
  have s: "apply_seq eng0 False world_a (take 1 batch) = Some (?w1, [?g1])"
    by (simp add: batch_def a)
  have f: "apply_diff eng0 ?w1 (batch ! 1) False = (Inl ?e, ?w1, bad_diff)"
    by (simp add: batch_def bad_diff_def plain_diff_def apply_diff_def validate_diff_def
        eng0_def world_a_def full_path_of_def path_join_def exists_def)
  have r1: "rollback_diff eng0 ?w1 ?g1 = (True, ?w3, ?g1\<lparr>applied := False\<rparr>)"
    by (simp add: rollback_diff_def good_diff_fields eng0_def full_path_of_def path_join_def
        exists_def unlink_def world_a_def)
  have r: "rollback_diffs eng0 ?w1 [?g1] =
      (\<lparr>rb_total = 1, rb_rolled_back = 1, rb_failed = 0\<rparr>, ?w3, [?g1\<lparr>applied := False\<rparr>])"
    by (simp add: rollback_diffs_def r1)
  have g: "?g1\<lparr>applied := False\<rparr> = good_diff\<lparr>applied_at := Some (decimal 1000)\<rparr>"
    using good_diff_fields(4) by (simp add: good_diff_def create_diff_def)
  from apply_diffs_stop_on_error [of eng0 False world_a 1 batch ?w1 "[?g1]" ?e ?w1 bad_diff
      "\<lparr>rb_total = 1, rb_rolled_back = 1, rb_failed = 0\<rparr>" ?w3 "[?g1\<lparr>applied := False\<rparr>]"]
    s f r
  have "apply_diffs eng0 world_a batch False True =
      (\<lparr>ar_total = 3, ar_applied = 0, ar_failed = 1, ar_skipped = 0,
        ar_errors = [(1, ''nonexistent.py'', ?e)]\<rparr>, ?w3,
       [?g1\<lparr>applied := False\<rparr>, bad_diff, third_diff])"
    by (simp add: batch_def bad_diff_def plain_diff_def)
  then show ?thesis
    by (simp add: g)
qed

section \<open>The executor: the batch of a plan\<close>

lemma partition_single_create:
  "partition_steps [step_of ''create'' fp intent] = ([step_of ''create'' fp intent], [])"
  by (simp add: partition_steps_def step_of_def get_or_def Let_def)

lemma step_of_fields:
  "step_action (step_of a fp i) = Some a" "step_file_path (step_of a fp i) = Some fp"
  "step_code_intent (step_of a fp i) = Some i" "step_dependencies (step_of a fp i) = []"
  by (simp_all add: step_of_def)

lemma execute_step_create_ok:
  "fp \<noteq> [] \<Longrightarrow> execute_step env_ok self ws w (step_of ''create'' fp intent) =
     step_ok (create_diff self w fp (Some ''pass'') CREATE None [])"
  by (simp add: execute_step_def execute_step_inner_def step_body_def generate_new_file_def
      env_ok_def step_of_fields get_or_def Let_def)

lemma run_steps_create_ok:
  "fp \<noteq> [] \<Longrightarrow> er_diffs (run_steps env_ok self ws w (initial_results dr) [step_of ''create'' fp intent]) =
     [create_diff self w fp (Some ''pass'') CREATE None []]"
  by (simp add: run_steps_def partition_single_create merge_one_def execute_step_create_ok
      step_ok_def initial_results_def step_of_fields get_or_def Let_def)

text \<open>
  Claim C1.  Where the steps of a plan produced a diff and the run is not a dry run,
  \<open>execute_plan\<close> hands the diffs to \<open>apply_diffs\<close> as one batch that stops at the first
  error, and then subscripts the \<open>ApplyResult\<close> it got back.  The class defines no
  subscript, so that the call ends with a \<open>TypeError\<close> in the world the batch left,
  whatever the batch reports: no result dictionary comes back, neither with the success
  flag cleared nor with it kept.
\<close>

theorem execute_plan_batch_subscript:
  assumes "er_diffs (run_steps env self workspace w (initial_results False) (plan_steps plan)) \<noteq> []"
  shows "execute_plan env self workspace w plan False =
           (Inl (TypeError ''ApplyResult object is not subscriptable''),
            fst (snd (apply_diffs self w
              (er_diffs (run_steps env self workspace w (initial_results False) (plan_steps plan)))
              False True)))"
  using assms
  by (simp add: execute_plan_def getitem_ApplyResult_def Let_def split: prod.splits)

lemma clash_diff_invalid:
  "apply_diff eng0 world_a (create_diff eng0 world_a ''a.py'' (Some ''pass'') CREATE None []) False =
     (Inl (ValueError ''a.py'' [CreateExists ''a.py'']), world_a,
      create_diff eng0 world_a ''a.py'' (Some ''pass'') CREATE None [])"
  by (simp add: apply_diff_def validate_diff_def create_diff_def eng0_def world_a_def
      full_path_of_def path_join_def exists_def Let_def)

theorem execute_plan_batch_subscript_witness:
  "execute_plan env_ok eng0 ''/ws'' world_a plan_good False =
     (Inl (TypeError ''ApplyResult object is not subscriptable''),
      \<lparr>files = (files world_a)(''/ws/good.py'' \<mapsto> ''pass''), clock = 1001\<rparr>)
   \<and> ar_failed (fst (apply_diffs eng0 world_a
        (er_diffs (run_steps env_ok eng0 ''/ws'' world_a (initial_results False)
           (plan_steps plan_good))) False True)) = 0
   \<and> execute_plan env_ok eng0 ''/ws'' world_a plan_clash False =
     (Inl (TypeError ''ApplyResult object is not subscriptable''), world_a)
   \<and> ar_failed (fst (apply_diffs eng0 world_a
        (er_diffs (run_steps env_ok eng0 ''/ws'' world_a (initial_results False)
           (plan_steps plan_clash))) False True)) = 1"
proof -
  have a: "apply_diff eng0 world_a good_diff False =
      (Inr True, \<lparr>files = (files world_a)(''/ws/good.py'' \<mapsto> ''pass''), clock = 1001\<rparr>,
       good_diff\<lparr>applied := True, applied_at := Some (decimal 1000)\<rparr>)"
    using apply_create [OF good_diff_valid good_diff_fields(1)]
    by (simp add: good_diff_fields or_empty_def eng0_def full_path_of_def path_join_def
        world_a_def)
  have g: "er_diffs (run_steps env_ok eng0 ''/ws'' world_a (initial_results False)
      (plan_steps plan_good)) = [good_diff]"
    by (simp add: plan_good_def run_steps_create_ok good_diff_def)
  have c: "er_diffs (run_steps env_ok eng0 ''/ws'' world_a (initial_results False)
      (plan_steps plan_clash)) = [create_diff eng0 world_a ''a.py'' (Some ''pass'') CREATE None []]"
    by (simp add: plan_clash_def run_steps_create_ok)
  have rn: "rollback_diffs eng0 world_a [] = (\<lparr>rb_total = 0, rb_rolled_back = 0, rb_failed = 0\<rparr>, world_a, [])"
    by (simp add: rollback_diffs_def)
  from execute_plan_batch_subscript [of env_ok eng0 "''/ws''" world_a plan_good]
    execute_plan_batch_subscript [of env_ok eng0 "''/ws''" world_a plan_clash]
  show ?thesis
    by (simp add: g c apply_diffs_def a clash_diff_invalid rn write_back_def)
qed

section \<open>The executor: a generation that fails\<close>
























section \<open>The verifier without a test framework\<close>

lemma combine_lint_valid:
  assumes "lr_valid combined \<longleftrightarrow> lr_errors combined = []"
    and "\<And>r. Inr r \<in> set rs \<Longrightarrow> (lr_valid r \<longleftrightarrow> lr_errors r = [])"
  shows "lr_valid (combine_lint combined rs) \<longleftrightarrow> lr_errors (combine_lint combined rs) = []"
  using assms
proof (induction combined rs rule: combine_lint.induct)
  case (1 combined)
  then show ?case by simp
next
  case (2 combined exc rs)
  then show ?case by simp
next
  case (3 combined r rs)
  have r: "lr_valid r \<longleftrightarrow> lr_errors r = []"
    using 3(3) by simp
  show ?case
    unfolding combine_lint.simps
  proof (rule 3(1))
    show "lr_valid (combined\<lparr>lr_valid := (if \<not> lr_valid r then False else lr_valid combined),
                 lr_errors := lr_errors combined @ lr_errors r,
                 lr_warnings := lr_warnings combined @ lr_warnings r\<rparr>) \<longleftrightarrow>
          lr_errors (combined\<lparr>lr_valid := (if \<not> lr_valid r then False else lr_valid combined),
                 lr_errors := lr_errors combined @ lr_errors r,
                 lr_warnings := lr_warnings combined @ lr_warnings r\<rparr>) = []"
      using r 3(2) by simp
  next
    fix r' assume "Inr r' \<in> set rs"
    then show "lr_valid r' \<longleftrightarrow> lr_errors r' = []"
      using 3(3) by simp
  qed
qed

lemma lint_result_of_valid:
  "lr_valid (lint_result_of tool findings) \<longleftrightarrow> lr_errors (lint_result_of tool findings) = []"
  by (simp add: lint_result_of_def)

lemma run_ruff_valid: "run_ruff tools workspace fs = Inr r \<Longrightarrow> (lr_valid r \<longleftrightarrow> lr_errors r = [])"
  by (auto simp add: run_ruff_def lint_result_of_def split: sum.splits)

lemma run_eslint_valid: "run_eslint tools w workspace fs = Inr r \<Longrightarrow> (lr_valid r \<longleftrightarrow> lr_errors r = [])"
  by (auto simp add: run_eslint_def lint_result_of_def split: sum.splits if_splits)

lemma run_linting_valid:
  "lr_valid (run_linting tools w workspace fs) \<longleftrightarrow> lr_errors (run_linting tools w workspace fs) = []"
proof -
  let ?py = "filter (\<lambda>fp. endswith fp ''.py'') fs"
  let ?js = "filter (\<lambda>fp. endswith fp ''.js'' \<or> endswith fp ''.jsx'' \<or>
                           endswith fp ''.ts'' \<or> endswith fp ''.tsx'') fs"
  let ?tasks = "(if ?py \<noteq> [] then [run_ruff tools workspace ?py] else []) @
                (if ?js \<noteq> [] then [run_eslint tools w workspace ?js] else [])"
  let ?c = "\<lparr>lr_valid = True, lr_errors = [], lr_warnings = [], lr_tool = ''multi''\<rparr>"
  have t: "\<And>r. Inr r \<in> set ?tasks \<Longrightarrow> (lr_valid r \<longleftrightarrow> lr_errors r = [])"
  proof -
    fix r assume "Inr r \<in> set ?tasks"
    then have "run_ruff tools workspace ?py = Inr r \<or> run_eslint tools w workspace ?js = Inr r"
      by (auto split: if_splits)
    then show "lr_valid r \<longleftrightarrow> lr_errors r = []"
      using run_ruff_valid run_eslint_valid by blast
  qed
  have "lr_valid (combine_lint ?c ?tasks) \<longleftrightarrow> lr_errors (combine_lint ?c ?tasks) = []"
    by (rule combine_lint_valid) (simp, rule t)
  then show ?thesis
    by (simp add: run_linting_def Let_def)
qed

text \<open>
  Claim C8.  Where neither test framework is detected, the syntax check of the changed
  files reports no error and the linting reports no error, the report passes with no test
  run.  It then holds no error and names no framework.
\<close>

theorem verify_no_framework:
  "\<not> has_pytest tools w workspace \<and> \<not> has_npm_test tools w workspace \<and>
   snd (check_syntax_parallel tools w workspace
          (er_files_created execution @ er_files_modified execution)) = [] \<and>
   lr_errors (run_linting tools w workspace
          (er_files_created execution @ er_files_modified execution)) = [] \<longrightarrow>
     vr_passed (verify_execution tools w workspace execution) \<and>
     vr_tests_run (verify_execution tools w workspace execution) = 0 \<and>
     vr_errors (verify_execution tools w workspace execution) = [] \<and>
     vr_framework_used (verify_execution tools w workspace execution) = []"
proof (intro impI)
  let ?changed = "er_files_created execution @ er_files_modified execution"
  assume h: "\<not> has_pytest tools w workspace \<and> \<not> has_npm_test tools w workspace \<and>
    snd (check_syntax_parallel tools w workspace ?changed) = [] \<and>
    lr_errors (run_linting tools w workspace ?changed) = []"
  then have s: "check_syntax_parallel tools w workspace ?changed = (True, [])"
    by (simp add: check_syntax_parallel_def Let_def)
  from h have l: "lr_valid (run_linting tools w workspace ?changed)"
    by (simp add: run_linting_valid)
  from h s l show "vr_passed (verify_execution tools w workspace execution) \<and>
     vr_tests_run (verify_execution tools w workspace execution) = 0 \<and>
     vr_errors (verify_execution tools w workspace execution) = [] \<and>
     vr_framework_used (verify_execution tools w workspace execution) = []"
    by (simp add: verify_execution_def TestResult0_def Let_def)
qed

theorem verify_no_framework_witness:
  "\<not> has_pytest tools_quiet world_a ''/ws'' \<and> \<not> has_npm_test tools_quiet world_a ''/ws'' \<and>
   check_syntax_parallel tools_quiet world_a ''/ws'' [''a.py''] = (True, []) \<and>
   lr_errors (run_linting tools_quiet world_a ''/ws'' [''a.py'']) = [] \<and>
   vr_passed (verify_execution tools_quiet world_a ''/ws'' modified_a) \<and>
   vr_tests_run (verify_execution tools_quiet world_a ''/ws'' modified_a) = 0"
proof -
  have p: "\<not> has_pytest tools_quiet world_a ''/ws''"
    by (simp add: has_pytest_def tools_quiet_def world_a_def exists_def path_join_def)
  have n: "\<not> has_npm_test tools_quiet world_a ''/ws''"
    by (simp add: has_npm_test_def tools_quiet_def world_a_def exists_def path_join_def)
  have s: "check_syntax_parallel tools_quiet world_a ''/ws'' [''a.py''] = (True, [])"
    by (simp add: check_syntax_parallel_def check_file_syntax_def tools_quiet_def world_a_def
        exists_def path_join_def path_suffix_def path_name_def lower_def Let_def)
  have l: "lr_errors (run_linting tools_quiet world_a ''/ws'' [''a.py'']) = []"
    by (simp add: run_linting_def run_ruff_def lint_result_of_def endswith_def tools_quiet_def
        Let_def)
  have c: "er_files_created modified_a @ er_files_modified modified_a = [''a.py'']"
    by (simp add: modified_a_def initial_results_def)
  from verify_no_framework [of tools_quiet world_a "''/ws''" modified_a] p n s l
  show ?thesis
    by (simp add: c)
qed

section \<open>The rate limiter\<close>

lemma dropWhile_sorted_filter:
  "sorted xs \<Longrightarrow> dropWhile (\<lambda>x. x \<le> (c::int)) xs = filter (\<lambda>x. c < x) xs"
proof (induction xs)
  case Nil
  then show ?case by simp
next
  case (Cons a xs)
  show ?case
  proof (cases "a \<le> c")
    case True
    with Cons show ?thesis by simp
  next
    case False
    with Cons.prems have "\<forall>x \<in> set xs. c < x" by auto
    then have "filter (\<lambda>x. c < x) xs = xs" by simp
    with False show ?thesis by simp
  qed
qed

lemma filter_none: "\<forall>x \<in> set xs. x \<le> (c::int) \<Longrightarrow> filter (\<lambda>x. c < x) xs = []"
  by (induction xs) auto

lemma acquire_step:
  assumes m: "1 \<le> max_requests self"
    and so: "sorted (dropped @ timestamps self)"
    and dr: "\<forall>d \<in> set dropped. d \<le> t - period self * 1000000"
  shows "acquire self t =
     (let cutoff = t - period self * 1000000;
          in_window = filter (\<lambda>x. cutoff < x) (dropped @ timestamps self)
      in if int (length in_window) \<ge> max_requests self
         then (Inl (RateLimitError (max_requests self) (period self) (hd in_window - cutoff)),
               self\<lparr>timestamps := in_window\<rparr>)
         else (Inr (), self\<lparr>timestamps := in_window @ [t]\<rparr>))"
proof -
  let ?c = "t - period self * 1000000"
  from so have "sorted (timestamps self)"
    by (simp add: sorted_append)
  then have k: "dropWhile (\<lambda>x. x \<le> ?c) (timestamps self) = filter (\<lambda>x. ?c < x) (timestamps self)"
    by (rule dropWhile_sorted_filter)
  from dr have d0: "filter (\<lambda>x. ?c < x) dropped = []"
    by (rule filter_none)
  show ?thesis
  proof (cases "filter (\<lambda>x. ?c < x) (timestamps self)")
    case Nil
    with m d0 show ?thesis
      by (simp add: acquire_def Let_def k)
  next
    case (Cons a list)
    with d0 show ?thesis
      by (simp add: acquire_def Let_def k)
  qed
qed


lemma acquire_fields:
  "max_requests (snd (acquire self t)) = max_requests self"
  "period (snd (acquire self t)) = period self"
  by (simp_all add: acquire_def Let_def split: list.splits)

lemma takeWhile_dropWhile_le:
  "\<forall>x \<in> set (takeWhile (\<lambda>x. x \<le> (c::int)) xs). x \<le> c"
  by (auto dest: set_takeWhileD)

lemma acquire_timestamps:
  assumes m: "1 \<le> max_requests self"
  shows "timestamps (snd (acquire self t)) =
     dropWhile (\<lambda>x. x \<le> t - period self * 1000000) (timestamps self) @
     (if fst (acquire self t) = Inr () then [t] else [])"
  using m by (auto simp add: acquire_def Let_def split: list.splits)

lemma acquire_inv:
  assumes m: "1 \<le> max_requests self"
  shows "\<exists>dropped'.
     dropped' @ timestamps (snd (acquire self t)) =
       dropped @ timestamps self @ (if fst (acquire self t) = Inr () then [t] else []) \<and>
     (\<forall>d \<in> set dropped'. d \<in> set dropped \<or> d \<le> t - period self * 1000000)"
proof -
  let ?c = "t - period self * 1000000"
  let ?d = "dropped @ takeWhile (\<lambda>x. x \<le> ?c) (timestamps self)"
  have "?d @ timestamps (snd (acquire self t)) =
       dropped @ (takeWhile (\<lambda>x. x \<le> ?c) (timestamps self) @
                  dropWhile (\<lambda>x. x \<le> ?c) (timestamps self)) @
       (if fst (acquire self t) = Inr () then [t] else [])"
    by (simp only: acquire_timestamps [OF m] append_assoc)
  then have "?d @ timestamps (snd (acquire self t)) =
       dropped @ timestamps self @ (if fst (acquire self t) = Inr () then [t] else [])"
    by (simp only: takeWhile_dropWhile_id)
  moreover have "\<forall>d \<in> set ?d. d \<in> set dropped \<or> d \<le> ?c"
    by (auto dest: set_takeWhileD)
  ultimately show ?thesis
    by blast
qed


lemma acquire_all_Cons:
  "snd (acquire_all self (a # ts)) = snd (acquire_all (snd (acquire self a)) ts)"
  by (simp split: prod.splits)

lemma recorded_Cons:
  "recorded self (a # ts) =
     (if fst (acquire self a) = Inr () then [a] else []) @ recorded (snd (acquire self a)) ts"
  by (cases "acquire self a"; cases "fst (acquire self a)") auto

lemma acquire_seq:
  assumes "1 \<le> max_requests self"
    and "sorted (dropped @ timestamps self @ ts @ [t])"
    and "\<forall>d \<in> set dropped. \<forall>x \<in> set (ts @ [t]). d \<le> x - period self * 1000000"
  shows "acquire (snd (acquire_all self ts)) t =
     (let cutoff = t - period self * 1000000;
          in_window = filter (\<lambda>x. cutoff < x) (dropped @ timestamps self @ recorded self ts)
      in if int (length in_window) \<ge> max_requests self
         then (Inl (RateLimitError (max_requests self) (period self) (hd in_window - cutoff)),
               (snd (acquire_all self ts))\<lparr>timestamps := in_window\<rparr>)
         else (Inr (), (snd (acquire_all self ts))\<lparr>timestamps := in_window @ [t]\<rparr>))"
  using assms
proof (induction ts arbitrary: self dropped)
  case Nil
  have so: "sorted (dropped @ timestamps self)"
    using Nil(2) by (simp add: sorted_append)
  have dr: "\<forall>d \<in> set dropped. d \<le> t - period self * 1000000"
    using Nil(3) by simp
  show ?case
    using acquire_step [OF Nil(1) so dr] by (simp add: Let_def)
next
  case (Cons a ts)
  let ?self = "snd (acquire self a)"
  let ?rec = "if fst (acquire self a) = Inr () then [a] else []"
  from acquire_inv [OF Cons(2), where dropped = dropped and t = a]
  obtain dropped' where
    e: "dropped' @ timestamps ?self = dropped @ timestamps self @ ?rec"
    and d: "\<forall>d \<in> set dropped'. d \<in> set dropped \<or> d \<le> a - period self * 1000000"
    by blast
  have m: "1 \<le> max_requests ?self"
    using Cons(2) by (simp add: acquire_fields)
  have "sorted ((dropped @ timestamps self @ ?rec) @ ts @ [t])"
    using Cons(3) by (auto simp add: sorted_append)
  then have so: "sorted (dropped' @ timestamps ?self @ ts @ [t])"
    by (simp only: e [symmetric] append_assoc)
  have a_le: "\<forall>x \<in> set (ts @ [t]). a \<le> x"
    using Cons(3) by (auto simp add: sorted_append)
  have dr: "\<forall>d \<in> set dropped'. \<forall>x \<in> set (ts @ [t]). d \<le> x - period ?self * 1000000"
  proof (intro ballI)
    fix d x assume dd: "d \<in> set dropped'" and xx: "x \<in> set (ts @ [t])"
    from d dd have "d \<in> set dropped \<or> d \<le> a - period self * 1000000"
      by blast
    then show "d \<le> x - period ?self * 1000000"
    proof
      assume "d \<in> set dropped"
      with Cons(4) xx show ?thesis
        by (auto simp add: acquire_fields)
    next
      assume "d \<le> a - period self * 1000000"
      moreover from a_le xx have "a \<le> x" by blast
      ultimately show ?thesis
        by (simp add: acquire_fields)
    qed
  qed
  have h: "dropped' @ timestamps ?self @ recorded ?self ts =
      dropped @ timestamps self @ recorded self (a # ts)"
  proof -
    have "dropped' @ timestamps ?self @ recorded ?self ts =
        (dropped' @ timestamps ?self) @ recorded ?self ts"
      by simp
    also have "\<dots> = (dropped @ timestamps self @ ?rec) @ recorded ?self ts"
      by (simp only: e)
    also have "\<dots> = dropped @ timestamps self @ recorded self (a # ts)"
      by (simp only: recorded_Cons append_assoc)
    finally show ?thesis .
  qed
  from Cons.IH [OF m so dr] show ?case
    by (simp only: h acquire_all_Cons acquire_fields)
qed

lemma init_limiter_fields:
  "max_requests (init_limiter m p) = m" "period (init_limiter m p) = p"
  "timestamps (init_limiter m p) = []"
  by (simp_all add: init_limiter_def)

text \<open>
  Claim C9.  Let the limiter allow at least one request and let the calls come at clock
  readings that do not decrease.  Then a call at time \<open>t\<close> is rejected exactly when the
  timestamps recorded by the calls before it that lie in the window, those later than
  \<open>t\<close> less the period, number at least the maximum.  It is rejected at once with the
  rate-limit error, whose waiting time runs to the moment the oldest of them leaves the
  window, and the limiter then holds those timestamps and nothing new; a call that is
  let through adds its own time to them.  With a maximum of zero or less the first call
  does not raise the rate-limit error: it reads the oldest timestamp of an empty queue.
\<close>

theorem acquire_sliding_window:
  "(1 \<le> m \<and> sorted (ts @ [t]) \<longrightarrow>
     acquire (snd (acquire_all (init_limiter m p) ts)) t =
       (let cutoff = t - p * 1000000;
            in_window = filter (\<lambda>x. cutoff < x) (recorded (init_limiter m p) ts)
        in if int (length in_window) \<ge> m
           then (Inl (RateLimitError m p (hd in_window - cutoff)),
                 (snd (acquire_all (init_limiter m p) ts))\<lparr>timestamps := in_window\<rparr>)
           else (Inr (),
                 (snd (acquire_all (init_limiter m p) ts))\<lparr>timestamps := in_window @ [t]\<rparr>)))
   \<and> (m \<le> 0 \<longrightarrow>
        acquire (init_limiter m p) t =
          (Inl (IndexError ''deque index out of range''), init_limiter m p))"
proof (intro conjI impI)
  assume h: "1 \<le> m \<and> sorted (ts @ [t])"
  have a: "1 \<le> max_requests (init_limiter m p)"
    using h by (simp add: init_limiter_fields)
  have b: "sorted ([] @ timestamps (init_limiter m p) @ ts @ [t])"
    using h by (simp add: init_limiter_fields)
  have c: "\<forall>d \<in> set ([] :: int list). \<forall>x \<in> set (ts @ [t]).
      d \<le> x - period (init_limiter m p) * 1000000"
    by simp
  from acquire_seq [OF a b c] show "acquire (snd (acquire_all (init_limiter m p) ts)) t =
       (let cutoff = t - p * 1000000;
            in_window = filter (\<lambda>x. cutoff < x) (recorded (init_limiter m p) ts)
        in if int (length in_window) \<ge> m
           then (Inl (RateLimitError m p (hd in_window - cutoff)),
                 (snd (acquire_all (init_limiter m p) ts))\<lparr>timestamps := in_window\<rparr>)
           else (Inr (),
                 (snd (acquire_all (init_limiter m p) ts))\<lparr>timestamps := in_window @ [t]\<rparr>))"
    by (simp add: init_limiter_fields Let_def)
next
  assume "m \<le> 0"
  then show "acquire (init_limiter m p) t =
      (Inl (IndexError ''deque index out of range''), init_limiter m p)"
    by (simp add: acquire_def init_limiter_def Let_def)
qed

lemma two_calls:
  "acquire_all (init_limiter 2 10) [100000000, 103000000] =
     ([Inr (), Inr ()],
      \<lparr>max_requests = 2, period = 10, timestamps = [100000000, 103000000]\<rparr>)"
  "recorded (init_limiter 2 10) [100000000, 103000000] = [100000000, 103000000]"
  by (simp_all add: init_limiter_def acquire_def Let_def)

theorem acquire_sliding_window_witness:
  "acquire (snd (acquire_all (init_limiter 2 10) [100000000, 103000000])) 105000000 =
     (Inl (RateLimitError 2 10 5000000),
      \<lparr>max_requests = 2, period = 10, timestamps = [100000000, 103000000]\<rparr>)
   \<and> acquire (snd (acquire_all (init_limiter 2 10) [100000000, 103000000])) 111000000 =
     (Inr (), \<lparr>max_requests = 2, period = 10, timestamps = [103000000, 111000000]\<rparr>)
   \<and> acquire (init_limiter 0 60) 100000000 =
     (Inl (IndexError ''deque index out of range''),
      \<lparr>max_requests = 0, period = 60, timestamps = []\<rparr>)"
proof -
  note a = acquire_sliding_window
  from a [of 2 "[100000000, 103000000]" 105000000 10]
  have 1: "acquire (snd (acquire_all (init_limiter 2 10) [100000000, 103000000])) 105000000 =
     (Inl (RateLimitError 2 10 5000000),
      \<lparr>max_requests = 2, period = 10, timestamps = [100000000, 103000000]\<rparr>)"
    by (simp add: two_calls Let_def del: acquire_all.simps recorded.simps)
  from a [of 2 "[100000000, 103000000]" 111000000 10]
  have 2: "acquire (snd (acquire_all (init_limiter 2 10) [100000000, 103000000])) 111000000 =
     (Inr (), \<lparr>max_requests = 2, period = 10, timestamps = [103000000, 111000000]\<rparr>)"
    by (simp add: two_calls Let_def del: acquire_all.simps recorded.simps)
  from a [of 0 "[]" 100000000 60]
  have 3: "acquire (init_limiter 0 60) 100000000 =
     (Inl (IndexError ''deque index out of range''),
      \<lparr>max_requests = 0, period = 60, timestamps = []\<rparr>)"
    by (simp add: init_limiter_def)
  show ?thesis
    apply (intro conjI)
      apply (rule 1)
     apply (rule 2)
    apply (rule 3)
    done
qed

section \<open>The orchestrator: a verification that fails\<close>

lemma rollback_each_unapplied:
  "\<forall>d \<in> set ds. \<not> applied d \<Longrightarrow>
     rollback_each self w ds rb fl = (rb + int (length ds), fl, w, ds)"
  by (induction ds arbitrary: rb fl) (simp_all add: rollback_diff_def)

lemma rollback_diffs_unapplied:
  "\<forall>d \<in> set ds. \<not> applied d \<Longrightarrow>
     rollback_diffs self w ds =
       (\<lparr>rb_total = int (length ds), rb_rolled_back = int (length ds), rb_failed = 0\<rparr>, w, ds)"
  by (simp add: rollback_diffs_def rollback_each_unapplied)

lemma file_diffs_of_rows_unapplied:
  "file_diffs_of_rows rows = Inr fds \<Longrightarrow> \<forall>d \<in> set fds. \<not> applied d"
proof (induction rows arbitrary: fds)
  case Nil
  then show ?case by simp
next
  case (Cons r rows)
  then show ?case
    by (auto simp add: file_diff_of_row_def split: sum.splits)
qed

lemma rollback_action_world: "snd (rollback_action self w action) = w"
proof (cases "file_diffs_of_rows (act_diffs action)")
  case (Inl exc)
  then show ?thesis
    by (simp add: rollback_action_def)
next
  case (Inr fds)
  from file_diffs_of_rows_unapplied [OF Inr]
  have "rollback_diffs self w fds =
      (\<lparr>rb_total = int (length fds), rb_rolled_back = int (length fds), rb_failed = 0\<rparr>, w, fds)"
    by (rule rollback_diffs_unapplied)
  with Inr show ?thesis
    by (simp add: rollback_action_def getitem_RollbackResult_def)
qed

lemma rollback_action_raises:
  "act_diffs action \<noteq> [] \<Longrightarrow> isl (fst (rollback_action self w action))"
  by (cases "file_diffs_of_rows (act_diffs action)")
     (simp_all add: rollback_action_def getitem_RollbackResult_def split: prod.splits)

lemma execute_plan_returns:
  "execute_plan env self workspace w plan False = (Inr execution, w') \<Longrightarrow>
     w' = w \<and> er_diffs execution = []"
  by (auto simp add: execute_plan_def getitem_ApplyResult_def Let_def
      split: if_splits prod.splits)

lemma plan_phase_files:
  "plan_phase coll w action = (r, a1, w1) \<Longrightarrow> files w1 = files w"
  by (auto simp add: plan_phase_def now_def Let_def split: option.splits sum.splits)

lemma execute_phase_returns:
  "execute_phase env self workspace w a plan = (Inr execution, a2, w2) \<Longrightarrow>
     w2 = w \<and> er_diffs execution = [] \<and> act_diffs a2 = act_diffs a"
proof -
  assume h: "execute_phase env self workspace w a plan = (Inr execution, a2, w2)"
  obtain r w' where e: "execute_plan env self workspace w plan False = (r, w')"
    by (cases "execute_plan env self workspace w plan False")
  show ?thesis
  proof (cases r)
    case (Inl exc)
    with h e show ?thesis
      by (simp add: execute_phase_def Let_def)
  next
    case (Inr res)
    with e have "w' = w \<and> er_diffs res = []"
      using execute_plan_returns [of env self workspace w plan res w'] by simp
    with h e Inr show ?thesis
      by (auto simp add: execute_phase_def Let_def)
  qed
qed

lemma process_intent_rolled_back:
  assumes p: "plan_phase coll w action = (Inr plan, a1, w1)"
    and g: "\<not> (act_requires_approval a1 \<and> act_approved a1 \<noteq> Some True)"
    and e: "execute_phase env self workspace w1 a1 plan = (Inr execution, a2, w2)"
    and v: "\<not> vr_passed (verify_execution tools w2 workspace execution)"
  shows "process_intent coll env tools self workspace w action =
     (\<lparr>res_action_id = act_id action, res_phases_completed = [PHASE_PLANNING, PHASE_EXECUTING],
       res_success = False, res_requires_approval = False, res_plan = Some plan,
       res_execution = Some execution, res_verification = None, res_reflection = None,
       res_error = Some (VerificationError
                           (vr_errors (verify_execution tools w2 workspace execution)))\<rparr>,
      a2\<lparr>act_verification_result := Some (verify_execution tools w2 workspace execution),
         act_status := ROLLED_BACK,
         act_error := Some (VerificationError
                              (vr_errors (verify_execution tools w2 workspace execution)))\<rparr>,
      w2)"
  using g v
  by (simp add: process_intent_def p e verify_phase_def handle_exception_def rollback_phase_def
      rollback_action_world Let_def)

lemma execute_plan_raises:
  "er_diffs (run_steps env self workspace w (initial_results False) (plan_steps plan)) \<noteq> [] \<Longrightarrow>
     fst (execute_plan env self workspace w plan False) =
       Inl (TypeError ''ApplyResult object is not subscriptable'')"
  by (simp add: execute_plan_def getitem_ApplyResult_def Let_def split: prod.splits)

lemma process_intent_failed:
  assumes p: "plan_phase coll w action = (Inr plan, a1, w1)"
    and g: "\<not> (act_requires_approval a1 \<and> act_approved a1 \<noteq> Some True)"
    and d: "er_diffs (run_steps env self workspace w1 (initial_results False) (plan_steps plan)) \<noteq> []"
  shows "act_status (fst (snd (process_intent coll env tools self workspace w action))) = FAILED"
    and "act_error (fst (snd (process_intent coll env tools self workspace w action))) =
      Some (ExecutionError (TypeError ''ApplyResult object is not subscriptable''))"
proof -
  obtain w' where e: "execute_plan env self workspace w1 plan False =
      (Inl (TypeError ''ApplyResult object is not subscriptable''), w')"
    using execute_plan_raises [OF d]
    by (cases "execute_plan env self workspace w1 plan False") auto
  show "act_status (fst (snd (process_intent coll env tools self workspace w action))) = FAILED"
    using g by (auto simp add: process_intent_def p execute_phase_def e handle_exception_def Let_def)
  show "act_error (fst (snd (process_intent coll env tools self workspace w action))) =
      Some (ExecutionError (TypeError ''ApplyResult object is not subscriptable''))"
    using g by (auto simp add: process_intent_def p execute_phase_def e handle_exception_def Let_def)
qed

text \<open>
  Claim C2.  Let the plan be made and need no approval, let the execution return its
  result, and let the verification of it not pass.  Then the action ends in the status
  \<open>ROLLED_BACK\<close> with the verification error, whatever the rollback does.  The rollback
  restores nothing: no file differs from what it was when \<open>process_intent\<close> was called.
  The execution that returned has applied no diff, for one that applies a diff ends in an
  exception; and \<open>rollback_action\<close> never changes a file, for it rebuilds the recorded
  diffs as diffs that are not applied, which \<open>rollback_diff\<close> passes over, and with a
  recorded diff it ends in an exception, which is only logged.  A run whose steps produce
  a diff never comes to the verification: it ends in the status \<open>FAILED\<close>.
\<close>

theorem process_intent_verification_failure:
  "(plan_phase coll w action = (Inr plan, a1, w1) \<and>
    \<not> (act_requires_approval a1 \<and> act_approved a1 \<noteq> Some True) \<and>
    execute_phase env self workspace w1 a1 plan = (Inr execution, a2, w2) \<and>
    \<not> vr_passed (verify_execution tools w2 workspace execution) \<longrightarrow>
      act_status (fst (snd (process_intent coll env tools self workspace w action))) = ROLLED_BACK \<and>
      act_error (fst (snd (process_intent coll env tools self workspace w action))) =
        Some (VerificationError (vr_errors (verify_execution tools w2 workspace execution))) \<and>
      \<not> res_success (fst (process_intent coll env tools self workspace w action)) \<and>
      files (snd (snd (process_intent coll env tools self workspace w action))) = files w \<and>
      er_diffs execution = [])
   \<and> snd (rollback_action self w action) = w
   \<and> (act_diffs action \<noteq> [] \<longrightarrow> isl (fst (rollback_action self w action)))
   \<and> (plan_phase coll w action = (Inr plan, a1, w1) \<and>
      \<not> (act_requires_approval a1 \<and> act_approved a1 \<noteq> Some True) \<and>
      er_diffs (run_steps env self workspace w1 (initial_results False) (plan_steps plan)) \<noteq> [] \<longrightarrow>
        act_status (fst (snd (process_intent coll env tools self workspace w action))) = FAILED \<and>
        act_error (fst (snd (process_intent coll env tools self workspace w action))) =
          Some (ExecutionError (TypeError ''ApplyResult object is not subscriptable'')))"
proof (intro conjI impI)
  assume h: "plan_phase coll w action = (Inr plan, a1, w1) \<and>
    \<not> (act_requires_approval a1 \<and> act_approved a1 \<noteq> Some True) \<and>
    execute_phase env self workspace w1 a1 plan = (Inr execution, a2, w2) \<and>
    \<not> vr_passed (verify_execution tools w2 workspace execution)"
  then have p: "plan_phase coll w action = (Inr plan, a1, w1)"
    and g: "\<not> (act_requires_approval a1 \<and> act_approved a1 \<noteq> Some True)"
    and e: "execute_phase env self workspace w1 a1 plan = (Inr execution, a2, w2)"
    and v: "\<not> vr_passed (verify_execution tools w2 workspace execution)"
    by blast+
  note r = process_intent_rolled_back [OF p g e v]
  from execute_phase_returns [OF e] have w: "w2 = w1" and d: "er_diffs execution = []"
    by blast+
  from plan_phase_files [OF p] have f: "files w1 = files w" .
  show "act_status (fst (snd (process_intent coll env tools self workspace w action))) = ROLLED_BACK"
    by (simp add: r)
  show "act_error (fst (snd (process_intent coll env tools self workspace w action))) =
        Some (VerificationError (vr_errors (verify_execution tools w2 workspace execution)))"
    by (simp add: r)
  show "\<not> res_success (fst (process_intent coll env tools self workspace w action))"
    by (simp add: r)
  show "files (snd (snd (process_intent coll env tools self workspace w action))) = files w"
    by (simp add: r w f)
  show "er_diffs execution = []"
    by (rule d)
next
  show "snd (rollback_action self w action) = w"
    by (rule rollback_action_world)
next
  assume "act_diffs action \<noteq> []"
  then show "isl (fst (rollback_action self w action))"
    by (rule rollback_action_raises)
next
  assume h: "plan_phase coll w action = (Inr plan, a1, w1) \<and>
      \<not> (act_requires_approval a1 \<and> act_approved a1 \<noteq> Some True) \<and>
      er_diffs (run_steps env self workspace w1 (initial_results False) (plan_steps plan)) \<noteq> []"
  then show "act_status (fst (snd (process_intent coll env tools self workspace w action))) = FAILED"
    using process_intent_failed(1) [of coll w action plan a1 w1 env self workspace tools] by blast
next
  assume h: "plan_phase coll w action = (Inr plan, a1, w1) \<and>
      \<not> (act_requires_approval a1 \<and> act_approved a1 \<noteq> Some True) \<and>
      er_diffs (run_steps env self workspace w1 (initial_results False) (plan_steps plan)) \<noteq> []"
  then show "act_error (fst (snd (process_intent coll env tools self workspace w action))) =
          Some (ExecutionError (TypeError ''ApplyResult object is not subscriptable''))"
    using process_intent_failed(2) [of coll w action plan a1 w1 env self workspace tools] by blast
qed

lemma plan_phase_none:
  "plan_phase coll_none world_modified action_a =
     (Inr plan_none,
      action_a\<lparr>act_status := PLANNING, act_started_at := Some 1002, act_plan := Some plan_none\<rparr>,
      world_modified\<lparr>clock := 1003\<rparr>)"
  by (simp add: plan_phase_def coll_none_def now_def world_modified_def plan_none_def
      action_a_def Let_def)

lemma execute_plan_none:
  "execute_plan env self workspace w plan_none False = (Inr (initial_results False), w)"
  by (simp add: execute_plan_def run_steps_def partition_steps_def plan_none_def
      initial_results_def Let_def)

lemma verify_two_of_five:
  "\<not> vr_passed (verify_execution tools_failing w ''/ws'' (initial_results False))"
  by (simp add: verify_execution_def has_pytest_def tools_failing_def tools_quiet_def
      two_of_five_def initial_results_def Let_def)

theorem process_intent_verification_failure_witness:
  "act_status (fst (snd (process_intent coll_none env_ok tools_failing eng0 ''/ws''
      world_modified action_a))) = ROLLED_BACK
   \<and> files (snd (snd (process_intent coll_none env_ok tools_failing eng0 ''/ws''
      world_modified action_a))) ''/ws/a.py'' = Some ''x = 2''
   \<and> act_diffs action_a = [row_a] \<and> row_original_content row_a = Some ''x = 1''
   \<and> isl (fst (rollback_action eng0 world_modified action_a))
   \<and> act_status (fst (snd (process_intent (coll_none\<lparr>create_plan := Inr plan_good\<rparr>) env_ok
        tools_failing eng0 ''/ws'' world_modified action_a))) = FAILED"
proof -
  let ?a1 = "action_a\<lparr>act_status := PLANNING, act_started_at := Some 1002,
    act_plan := Some plan_none\<rparr>"
  let ?w1 = "world_modified\<lparr>clock := 1003\<rparr>"
  let ?a2 = "?a1\<lparr>act_status := EXECUTING, act_execution_result := Some (initial_results False)\<rparr>"
  have g: "\<not> (act_requires_approval ?a1 \<and> act_approved ?a1 \<noteq> Some True)"
    by (simp add: action_a_def)
  have e: "execute_phase env_ok eng0 ''/ws'' ?w1 ?a1 plan_none =
      (Inr (initial_results False), ?a2, ?w1)"
    by (simp add: execute_phase_def execute_plan_none Let_def)
  have d: "act_diffs action_a \<noteq> []" "act_diffs action_a = [row_a]"
    "row_original_content row_a = Some ''x = 1''"
    by (simp_all add: action_a_def row_a_def)
  have f: "files world_modified ''/ws/a.py'' = Some ''x = 2''"
    by (simp add: world_modified_def backup_a_def)
  from process_intent_verification_failure [of coll_none world_modified action_a plan_none ?a1
      ?w1 env_ok eng0 "''/ws''" "initial_results False" ?a2 ?w1 tools_failing]
    plan_phase_none g e verify_two_of_five [of ?w1] d(1)
  have "act_status (fst (snd (process_intent coll_none env_ok tools_failing eng0 ''/ws''
      world_modified action_a))) = ROLLED_BACK
    \<and> files (snd (snd (process_intent coll_none env_ok tools_failing eng0 ''/ws''
      world_modified action_a))) = files world_modified
    \<and> isl (fst (rollback_action eng0 world_modified action_a))"
    by blast
  moreover have pg: "plan_phase (coll_none\<lparr>create_plan := Inr plan_good\<rparr>) world_modified action_a =
     (Inr plan_good,
      action_a\<lparr>act_status := PLANNING, act_started_at := Some 1002, act_plan := Some plan_good\<rparr>,
      world_modified\<lparr>clock := 1003\<rparr>)"
    by (simp add: plan_phase_def coll_none_def now_def world_modified_def plan_good_def
        action_a_def Let_def)
  have gg: "\<not> (act_requires_approval (action_a\<lparr>act_status := PLANNING,
        act_started_at := Some 1002, act_plan := Some plan_good\<rparr>) \<and>
      act_approved (action_a\<lparr>act_status := PLANNING, act_started_at := Some 1002,
        act_plan := Some plan_good\<rparr>) \<noteq> Some True)"
    by (simp add: action_a_def)
  have dd: "er_diffs (run_steps env_ok eng0 ''/ws'' ?w1 (initial_results False)
      (plan_steps plan_good)) \<noteq> []"
    by (simp add: plan_good_def run_steps_create_ok)
  from process_intent_verification_failure [of "coll_none\<lparr>create_plan := Inr plan_good\<rparr>"
      world_modified action_a plan_good
      "action_a\<lparr>act_status := PLANNING, act_started_at := Some 1002, act_plan := Some plan_good\<rparr>"
      ?w1 env_ok eng0 "''/ws''" "initial_results False" ?a2 ?w1 tools_failing]
    pg gg dd
  have "act_status (fst (snd (process_intent (coll_none\<lparr>create_plan := Inr plan_good\<rparr>) env_ok
        tools_failing eng0 ''/ws'' world_modified action_a))) = FAILED"
    by blast
  ultimately show ?thesis
    using d f by simp
qed

end
